theory Spec2Isabelle
  imports Complex_Main
begin

unbundle bit_operations_syntax

section \<open>The content-stream interpreter of viewer.py\<close>

text \<open>
  A shallow embedding of class \<^verbatim>\<open>pypdfProcessor\<close> and class \<^verbatim>\<open>pdfState\<close> of
  \<^verbatim>\<open>src/viewer.py\<close>. Python floats and the \<^verbatim>\<open>Decimal\<close> operands of PyPDF2 are
  modelled as exact reals, Python integers as \<^typ>\<open>int\<close>, the elements of a
  \<^verbatim>\<open>bytes\<close> object as \<^typ>\<open>nat\<close>. Every exception the code can raise is a value of
  \<open>py_error\<close>; a function that can raise returns \<open>py_error + 'a\<close>.
\<close>

subsection \<open>Python values\<close>

datatype py_error =
    IndexError | KeyError | ValueError | TypeError | AttributeError
  | UnboundLocalError | ZeroDivisionError | AssertionError | RecursionError
  | NameError | HostError

type_synonym bytes = "nat list"

text \<open>Operator names and strings come either as \<^verbatim>\<open>str\<close> or as \<^verbatim>\<open>bytes\<close>; Python 3
  never finds the two equal.\<close>

datatype pyname = Str string | Bytes string

text \<open>The objects of PyPDF2 that reach the interpreter in operand lists and resource
  dictionaries, and Python's own \<^verbatim>\<open>None\<close>, \<^verbatim>\<open>True\<close> and \<^verbatim>\<open>False\<close>. A byte string holds
  bytes, a text string (a \<^verbatim>\<open>str\<close>) code points, a name ASCII characters. A Python list
  or integer is the array or number object with the same contents. A stream object
  is its dictionary, its \<^verbatim>\<open>_data\<close> and the result of its \<^verbatim>\<open>getData()\<close>; an indirect
  object is given with the object it refers to.\<close>

datatype pdfobj =
    NumberObject int
  | FloatObject real
  | ByteStringObject bytes
  | TextStringObject "nat list"
  | NameObject string
  | BooleanObject bool
  | NullObject
  | ArrayObject "pdfobj list"
  | EncodedStreamObject "(string \<times> pdfobj) list" bytes bytes
  | IndirectObject pdfobj
  | PyNone
  | PyBool bool

text \<open>\<^verbatim>\<open>round(x)\<close>: to the nearest integer, a tie to the even one.\<close>

definition py_round :: "real \<Rightarrow> int" where
  "py_round x =
     (let f = \<lfloor>x\<rfloor>; d = x - of_int f
      in if d < 1 / 2 then f else if 1 / 2 < d then f + 1
         else if even f then f else f + 1)"

text \<open>\<^verbatim>\<open>int(x)\<close> of a float: truncation towards zero.\<close>

definition py_int :: "real \<Rightarrow> int" where
  "py_int x = (if 0 \<le> x then \<lfloor>x\<rfloor> else \<lceil>x\<rceil>)"

text \<open>The number an operand stands for in arithmetic (\<^verbatim>\<open>1-c\<close>, \<^verbatim>\<open>operand[0] * 255\<close>);
  any other object makes the arithmetic raise \<^verbatim>\<open>TypeError\<close>.\<close>

fun num_of :: "pdfobj \<Rightarrow> py_error + real" where
  "num_of (NumberObject i) = Inr (of_int i)"
| "num_of (FloatObject x) = Inr x"
| "num_of (PyBool b) = Inr (of_bool b)"
| "num_of _ = Inl TypeError"

text \<open>Sequencing of steps that can raise: the first exception ends the sequence.
  \<open>sbnd\<close> does the same for steps that also change a state, which stays as the
  failing step left it.\<close>

definition bnd :: "py_error + 'a \<Rightarrow> ('a \<Rightarrow> py_error + 'b) \<Rightarrow> py_error + 'b" where
  "bnd r f = (case r of Inl e \<Rightarrow> Inl e | Inr x \<Rightarrow> f x)"

definition sbnd ::
  "('s \<Rightarrow> (py_error + 'a) \<times> 's) \<Rightarrow> ('a \<Rightarrow> 's \<Rightarrow> (py_error + 'b) \<times> 's)
     \<Rightarrow> 's \<Rightarrow> (py_error + 'b) \<times> 's" where
  "sbnd m f s = (case m s of (Inl e, s') \<Rightarrow> (Inl e, s') | (Inr x, s') \<Rightarrow> f x s')"

definition lift :: "py_error + 'a \<Rightarrow> 's \<Rightarrow> (py_error + 'a) \<times> 's" where
  "lift r s = (r, s)"

subsection \<open>Colour conversion\<close>

text \<open>\<^verbatim>\<open>ConvertCMYK\<close>: the unpacking \<^verbatim>\<open>c, m, y, k = operand\<close> raises \<^verbatim>\<open>ValueError\<close>
  unless there are four operands.\<close>

fun ConvertCMYK :: "pdfobj list \<Rightarrow> py_error + (int \<times> int \<times> int)" where
  "ConvertCMYK [c, m, y, k] =
     (case (num_of c, num_of m, num_of y, num_of k) of
        (Inr c', Inr m', Inr y', Inr k') \<Rightarrow>
          (let r = py_round ((1 - c') * (1 - k') * 255);
               b = py_round ((1 - y') * (1 - k') * 255);
               g = py_round ((1 - m') * (1 - k') * 255)
           in Inr (r, g, b))
      | _ \<Rightarrow> Inl TypeError)"
| "ConvertCMYK _ = Inl ValueError"

fun ConvertGrey :: "pdfobj list \<Rightarrow> py_error + (int \<times> int \<times> int)" where
  "ConvertGrey [] = Inl IndexError"
| "ConvertGrey (x # _) =
     (case num_of x of
        Inr v \<Rightarrow>
          (let r = py_round (v * 255); g = py_round (v * 255); b = py_round (v * 255)
           in Inr (r, g, b))
      | Inl e \<Rightarrow> Inl e)"

subsection \<open>Byte buffers\<close>

text \<open>\<^verbatim>\<open>BytesIO(buffer)\<close>: a buffer and a position. \<^verbatim>\<open>write\<close> overwrites from the
  position on and extends the buffer where the data reaches beyond its end.\<close>

record BytesIO =
  buf :: bytes
  pos :: nat

definition BytesIO_new :: "bytes \<Rightarrow> BytesIO" where
  "BytesIO_new b = \<lparr>buf = b, pos = 0\<rparr>"

definition BytesIO_write :: "bytes \<Rightarrow> BytesIO \<Rightarrow> BytesIO" where
  "BytesIO_write bs io =
     \<lparr>buf = take (pos io) (buf io) @ bs @ drop (pos io + length bs) (buf io),
      pos = pos io + length bs\<rparr>"

definition getvalue :: "BytesIO \<Rightarrow> bytes" where
  "getvalue io = buf io"

text \<open>\<^verbatim>\<open>bytes(n)\<close>: \<open>n\<close> zero bytes, \<^verbatim>\<open>ValueError\<close> for a negative \<open>n\<close>.\<close>

definition bytes_of_size :: "int \<Rightarrow> py_error + bytes" where
  "bytes_of_size n = (if n < 0 then Inl ValueError else Inr (replicate (nat n) 0))"

text \<open>A slice \<^verbatim>\<open>xs[lo:hi]\<close> with \<open>0 \<le> lo\<close>: clipped to the sequence, never an error.\<close>

definition slice :: "'a list \<Rightarrow> nat \<Rightarrow> nat \<Rightarrow> 'a list" where
  "slice xs lo hi = take (hi - lo) (drop lo xs)"

subsection \<open>Colour-key rewriting\<close>

text \<open>The \<^verbatim>\<open>while pos < len(RGBdata)\<close> loop of \<^verbatim>\<open>FixColour\<close>. Reading
  \<^verbatim>\<open>RGBdata[pos+1]\<close> or \<^verbatim>\<open>RGBdata[pos+2]\<close> beyond the end raises \<^verbatim>\<open>IndexError\<close>.
  The loop state is the output buffer and the counter \<^verbatim>\<open>nfix\<close>.\<close>

function FixColour_loop ::
  "bytes \<Rightarrow> nat \<times> nat \<times> nat \<times> nat \<times> nat \<times> nat \<Rightarrow> bytes \<Rightarrow> nat \<Rightarrow> BytesIO \<times> nat
     \<Rightarrow> py_error + (BytesIO \<times> nat)" where
  "FixColour_loop RGBdata limits colour_key_fix p (d2b, nfix) =
     (if p < length RGBdata then
        (if length RGBdata \<le> p + 2 then Inl IndexError
         else
           (case limits of (R1, R9, G1, G9, B1, B9) \<Rightarrow>
             (let R = RGBdata ! p; G = RGBdata ! (p + 1); B = RGBdata ! (p + 2)
              in if R1 \<le> R \<and> R \<le> R9 \<and> G1 \<le> G \<and> G \<le> G9 \<and> B1 \<le> B \<and> B \<le> B9
                 then FixColour_loop RGBdata limits colour_key_fix (p + 3)
                        (BytesIO_write colour_key_fix d2b, nfix + 1)
                 else FixColour_loop RGBdata limits colour_key_fix (p + 3)
                        (BytesIO_write (slice RGBdata p (p + 3)) d2b, nfix))))
      else Inr (d2b, nfix))"
  by pat_completeness auto
termination
  by (relation "measure (\<lambda>(RGBdata, limits, k, p, s). length RGBdata - p)") auto

declare FixColour_loop.simps [simp del]

fun FixColour :: "bytes \<Rightarrow> bytes \<Rightarrow> bytes \<Rightarrow> py_error + bytes" where
  "FixColour RGBdata [R1, R9, G1, G9, B1, B9] colour_key_fix =
     (case FixColour_loop RGBdata (R1, R9, G1, G9, B1, B9) colour_key_fix 0
             (BytesIO_new (replicate (length RGBdata) 0), 0) of
        Inl e \<Rightarrow> Inl e
      | Inr (d2b, nfix) \<Rightarrow>
          (let d2 = getvalue d2b
           in if length RGBdata = length d2 then Inr d2 else Inl AssertionError))"
| "FixColour RGBdata _ colour_key_fix = Inl ValueError"

subsection \<open>De-indexing\<close>

text \<open>\<^verbatim>\<open>x == n\<close> and \<^verbatim>\<open>x == 's'\<close> for an object \<open>x\<close>.\<close>

fun py_eq_int :: "pdfobj \<Rightarrow> int \<Rightarrow> bool" where
  "py_eq_int (NumberObject i) n = (i = n)"
| "py_eq_int (FloatObject x) n = (x = of_int n)"
| "py_eq_int (PyBool b) n = (of_bool b = n)"
| "py_eq_int _ n = False"

fun py_eq_str :: "pdfobj \<Rightarrow> string \<Rightarrow> bool" where
  "py_eq_str (NameObject t) s = (t = s)"
| "py_eq_str (TextStringObject t) s = (t = map of_char s)"
| "py_eq_str _ s = False"

text \<open>One pass of \<^verbatim>\<open>for d in data\<close> per bit depth. Python's \<^verbatim>\<open>>>\<close> binds tighter than
  \<^verbatim>\<open>&\<close>, so \<^verbatim>\<open>d & 12 >> 2\<close> is \<^verbatim>\<open>d & (12 >> 2)\<close>.\<close>

definition pal :: "bytes \<Rightarrow> nat \<Rightarrow> nat \<Rightarrow> bytes" where
  "pal x_palette palette_chunk b = slice x_palette (b * palette_chunk) ((b + 1) * palette_chunk)"

definition Deindex_byte :: "pdfobj \<Rightarrow> bytes \<Rightarrow> nat \<Rightarrow> nat \<Rightarrow> BytesIO \<Rightarrow> BytesIO" where
  "Deindex_byte x_depth x_palette palette_chunk d d2b =
     (if py_eq_int x_depth 1 then
        (let b8 = d AND 1;
             b7 = drop_bit 1 (d AND 2);
             b6 = drop_bit 2 (d AND 4);
             b5 = drop_bit 3 (d AND 8);
             b4 = drop_bit 4 (d AND 16);
             b3 = drop_bit 5 (d AND 32);
             b2 = drop_bit 6 (d AND 64);
             b1 = drop_bit 7 (d AND 128)
         in fold (\<lambda>b. BytesIO_write (pal x_palette palette_chunk b))
              [b1, b2, b3, b4, b5, b6, b7, b8] d2b)
      else if py_eq_int x_depth 2 then
        (let b4 = d AND 3;
             b3 = d AND drop_bit 2 12;
             b2 = d AND drop_bit 4 48;
             b1 = d AND drop_bit 6 192
         in fold (\<lambda>b. BytesIO_write (pal x_palette palette_chunk b)) [b1, b2, b3, b4] d2b)
      else if py_eq_int x_depth 4 then
        (let b1 = d AND 15;
             b2 = drop_bit 4 (d AND 240)
         in fold (\<lambda>b. BytesIO_write (pal x_palette palette_chunk b)) [b1, b2] d2b)
      else if py_eq_int x_depth 8 then
        (let b1 = d
         in BytesIO_write (pal x_palette palette_chunk b1) d2b)
      else d2b)"

definition DeindexImage ::
  "int \<Rightarrow> int \<Rightarrow> bytes \<Rightarrow> pdfobj \<Rightarrow> pdfobj \<Rightarrow> bytes \<Rightarrow> nat \<Rightarrow> py_error + bytes" where
  "DeindexImage width height data x_depth x_palette_size x_palette palette_chunk =
     (case bytes_of_size (width * height * int palette_chunk) of
        Inl e \<Rightarrow> Inl e
      | Inr buffer \<Rightarrow>
          Inr (getvalue (fold (Deindex_byte x_depth x_palette palette_chunk) data
                           (BytesIO_new buffer))))"

subsection \<open>Host objects and draw commands\<close>

text \<open>The wx objects the interpreter builds are kept as the constructor calls that made
  them. \<open>Colour r g b a\<close> is \<^verbatim>\<open>wx.Colour(r, g, b, a)\<close>; \<^verbatim>\<open>wx.Colour(r, g, b)\<close> has
  the alpha \<^verbatim>\<open>wx.ALPHA_OPAQUE\<close>, 255.\<close>

datatype wxColour = Colour int int int real

definition Colour3 :: "int \<Rightarrow> int \<Rightarrow> int \<Rightarrow> wxColour" where
  "Colour3 r g b = Colour r g b 255"

fun Red :: "wxColour \<Rightarrow> int" where "Red (Colour r g b a) = r"
fun Green :: "wxColour \<Rightarrow> int" where "Green (Colour r g b a) = g"
fun Blue :: "wxColour \<Rightarrow> int" where "Blue (Colour r g b a) = b"

datatype wxCap = CAP_BUTT | CAP_ROUND | CAP_PROJECTING
datatype wxJoin = JOIN_MITER | JOIN_ROUND | JOIN_BEVEL
datatype wxPenStyle = PENSTYLE_SOLID | PENSTYLE_USER_DASH
datatype wxRule = WINDING_RULE | ODDEVEN_RULE | Rule_0
datatype wxFamily = FONTFAMILY_MODERN | FONTFAMILY_SWISS | FONTFAMILY_ROMAN | FONTFAMILY_DEFAULT
datatype wxWeight = FONTWEIGHT_NORMAL | FONTWEIGHT_BOLD
datatype wxStyle = FONTSTYLE_NORMAL | FONTSTYLE_ITALIC

text \<open>\<^verbatim>\<open>wx.Font(size, family, style, weight, faceName=font)\<close>, and the factor of the
  \<^verbatim>\<open>Scale\<close> call that follows it.\<close>

record wxFont =
  pointSize :: real
  family :: wxFamily
  style :: wxStyle
  weight :: wxWeight
  faceName :: string
  scaled :: real

text \<open>\<^verbatim>\<open>wx.Pen(colour, width, style)\<close> after \<^verbatim>\<open>SetCap\<close>, \<^verbatim>\<open>SetJoin\<close> and, for a dashed pen,
  \<^verbatim>\<open>SetDashes\<close>.\<close>

record wxPen =
  pen_colour :: wxColour
  pen_width :: real
  pen_style :: wxPenStyle
  pen_cap :: wxCap
  pen_join :: wxJoin
  pen_dashes :: "pdfobj option"

datatype wxPenArg = Pen wxPen | TRANSPARENT_PEN
datatype wxBrushArg = Brush wxColour | TRANSPARENT_BRUSH

text \<open>A bitmap: built from an RGB buffer, decoded from JPEG data, or a bitmap with a
  mask (\<^verbatim>\<open>wx.Mask(mask_bitmap, colour)\<close>) set on it.\<close>

datatype wxBitmap =
    FromBuffer int int bytes
  | FromJPEG bytes
  | SetMask wxBitmap wxBitmap wxColour

text \<open>A draw command \<^verbatim>\<open>[name, args, kwargs]\<close>; \<^verbatim>\<open>kwargs\<close> is always empty.
  \<open>SetFont_cmd\<close> and \<open>DrawPath_cmd\<close> are the commands \<^verbatim>\<open>'SetFont'\<close> and \<^verbatim>\<open>'DrawPath'\<close>
  (the methods of these names follow below); the first argument of \<^verbatim>\<open>'DrawPath'\<close> is
  always the string \<^verbatim>\<open>'GraphicsPath'\<close> and is left out. The
  arguments of \<open>ConcatTransform\<close> are the six of the matrix, those of \<open>DrawBitmap\<close> the
  bitmap, x, y, width and height.\<close>

datatype drawcmd =
    ConcatTransform real real real real real real
  | PushState
  | PopState
  | SetFont_cmd wxFont wxColour
  | SetPen wxPenArg
  | SetBrush wxBrushArg
  | DrawText pdfobj real real
  | DrawBitmap wxBitmap real real real real
  | CreatePath
  | MoveToPoint real real
  | AddLineToPoint real real
  | AddRectangle real real real real
  | AddCurveToPoint "real list"
  | CloseSubpath
  | DrawPath_cmd wxRule

subsection \<open>The bitmap transform fix at the end of ProcessOperators\<close>

text \<open>\<^verbatim>\<open>for k in range(len(drawlist)-1)\<close>: where a \<open>ConcatTransform\<close> stands right before
  a \<open>DrawBitmap\<close>, both are rewritten in place. The divisions \<^verbatim>\<open>ctargs[1] / w\<close> and
  \<^verbatim>\<open>ctargs[2] / h\<close> are float divisions and raise \<^verbatim>\<open>ZeroDivisionError\<close> for a zero
  divisor.\<close>

definition fix_pair :: "drawcmd \<Rightarrow> drawcmd \<Rightarrow> (py_error + drawcmd \<times> drawcmd) option" where
  "fix_pair c1 c2 =
     (case c1 of
        ConcatTransform ct0 ct1 ct2 ct3 ct4 ct5 \<Rightarrow>
          (case c2 of
             DrawBitmap bm0 bm1 bm2 bm3 bm4 \<Rightarrow>
               (let w = ct0; h = ct3
                in if w = 0 \<or> h = 0 then Some (Inl ZeroDivisionError)
                   else Some (Inr (ConcatTransform 1 (ct1 / w) (ct2 / h) 1 ct4 ct5,
                                   DrawBitmap bm0 bm1 (- ct3) ct0 ct3)))
           | _ \<Rightarrow> None)
      | _ \<Rightarrow> None)"

function fix_bitmap_transform :: "nat \<Rightarrow> drawcmd list \<Rightarrow> py_error + drawcmd list" where
  "fix_bitmap_transform k drawlist =
     (if k + 1 < length drawlist then
        (case fix_pair (drawlist ! k) (drawlist ! (k + 1)) of
           None \<Rightarrow> fix_bitmap_transform (k + 1) drawlist
         | Some (Inl e) \<Rightarrow> Inl e
         | Some (Inr (c1, c2)) \<Rightarrow>
             fix_bitmap_transform (k + 1) (drawlist[k := c1, k + 1 := c2]))
      else Inr drawlist)"
  by pat_completeness auto
termination
  by (relation "measure (\<lambda>(k, drawlist). length drawlist - k)") auto

declare fix_bitmap_transform.simps [simp del]

subsection \<open>The graphics state\<close>

text \<open>Class \<^verbatim>\<open>pdfState\<close>. The lists the interpreter changes in place (the two text
  matrices, by \<^verbatim>\<open>g.textLineMatrix[4] += ...\<close>, and the clipping path, by \<^verbatim>\<open>append\<close>)
  live in a store and the state holds their addresses, so that two states can share
  one; every other attribute is only ever rebound and is kept as a value.
  \<open>ClippingRule\<close> is the attribute \<^verbatim>\<open>SetClippingPath\<close> creates (it is not
  \<open>clippingRule\<close>); \<open>None\<close> means that it does not exist.\<close>

type_synonym addr = nat
type_synonym pathseg = "real list \<times> string"

record pdfState =
  lineWidth :: real
  lineCapStyle :: wxCap
  lineJoinStyle :: wxJoin
  lineDashArray :: pdfobj
  lineDashPhase :: pdfobj
  miterLimit :: "real option"
  automaticStrokeAdjustment :: pdfobj
  overprint :: pdfobj
  overprintNS :: pdfobj
  overprintMode :: pdfobj
  strokeTransparency :: real
  strokeRGB :: wxColour
  fillTransparency :: real
  fillRGB :: wxColour
  fillMode :: pdfobj
  clippingPath :: "addr option"
  clippingRule :: pdfobj
  ClippingRule :: "string option"
  textMatrix :: addr
  textLineMatrix :: addr
  charSpacing :: real
  wordSpacing :: real
  horizontalScaling :: real
  leading :: "real option"
  font :: "string option"
  fontSize :: "real option"
  textRenderMode :: pdfobj
  textRise :: real

text \<open>The store: the float lists and the lists of paths, an address being an index.
  A new list is put at the end, so no address is ever reused.\<close>

record store =
  mats :: "real list list"
  clips :: "pathseg list list list"

definition new_mat :: "real list \<Rightarrow> store \<Rightarrow> addr \<times> store" where
  "new_mat xs st = (length (mats st), st\<lparr>mats := mats st @ [xs]\<rparr>)"

definition new_clip :: "pathseg list list \<Rightarrow> store \<Rightarrow> addr \<times> store" where
  "new_clip ps st = (length (clips st), st\<lparr>clips := clips st @ [ps]\<rparr>)"

definition mat_at :: "store \<Rightarrow> addr \<Rightarrow> real list" where
  "mat_at st a = (if a < length (mats st) then mats st ! a else [])"

definition clip_at :: "store \<Rightarrow> addr \<Rightarrow> pathseg list list" where
  "clip_at st a = (if a < length (clips st) then clips st ! a else [])"

definition set_mat :: "addr \<Rightarrow> real list \<Rightarrow> store \<Rightarrow> store" where
  "set_mat a xs st = st\<lparr>mats := (mats st)[a := xs]\<rparr>"

definition set_clip :: "addr \<Rightarrow> pathseg list list \<Rightarrow> store \<Rightarrow> store" where
  "set_clip a ps st = st\<lparr>clips := (clips st)[a := ps]\<rparr>"

text \<open>\<^verbatim>\<open>pdfState()\<close>: the defaults of \<^verbatim>\<open>__init__\<close>, with two new matrix lists.\<close>

definition pdfState_init :: "store \<Rightarrow> pdfState \<times> store" where
  "pdfState_init st =
     (case new_mat [1, 0, 0, 1, 0, 0] st of (tm, st1) \<Rightarrow>
      case new_mat [1, 0, 0, 1, 0, 0] st1 of (tlm, st2) \<Rightarrow>
        (\<lparr>lineWidth = 1, lineCapStyle = CAP_BUTT, lineJoinStyle = JOIN_MITER,
          lineDashArray = ArrayObject [], lineDashPhase = NumberObject 0,
          miterLimit = None, automaticStrokeAdjustment = PyBool False,
          overprint = PyBool False, overprintNS = PyBool False,
          overprintMode = NumberObject 0,
          strokeTransparency = 1, strokeRGB = Colour3 0 0 0,
          fillTransparency = 1, fillRGB = Colour3 0 0 0, fillMode = PyNone,
          clippingPath = None, clippingRule = PyNone, ClippingRule = None,
          textMatrix = tm, textLineMatrix = tlm,
          charSpacing = 0, wordSpacing = 0, horizontalScaling = 1, leading = None,
          font = None, fontSize = None, textRenderMode = PyNone, textRise = 0\<rparr>,
         st2))"

text \<open>\<^verbatim>\<open>copy.deepcopy(g)\<close>: a new state whose lists are new copies. The copy keeps the
  sharing inside the state: were both matrices one list, the copy's would be one
  list too.\<close>

definition deepcopy :: "pdfState \<Rightarrow> store \<Rightarrow> pdfState \<times> store" where
  "deepcopy g st =
     (case (case clippingPath g of
              None \<Rightarrow> (None, st)
            | Some a \<Rightarrow> (case new_clip (clip_at st a) st of (a', st') \<Rightarrow> (Some a', st'))) of
        (cp, st1) \<Rightarrow>
      case new_mat (mat_at st1 (textMatrix g)) st1 of (tm, st2) \<Rightarrow>
      case (if textLineMatrix g = textMatrix g then (tm, st2)
            else new_mat (mat_at st2 (textLineMatrix g)) st2) of (tlm, st3) \<Rightarrow>
        (g\<lparr>clippingPath := cp, textMatrix := tm, textLineMatrix := tlm\<rparr>, st3))"

text \<open>The values of a state's attributes, with the lists read from the store: what is
  compared when two states are compared field by field.\<close>

definition state_value ::
  "store \<Rightarrow> pdfState \<Rightarrow> pdfState \<times> real list \<times> real list \<times> pathseg list list option" where
  "state_value st g =
     (g\<lparr>clippingPath := None, textMatrix := 0, textLineMatrix := 0\<rparr>,
      mat_at st (textMatrix g), mat_at st (textLineMatrix g),
      map_option (clip_at st) (clippingPath g))"

text \<open>The addresses a state holds.\<close>

definition mat_addrs :: "pdfState \<Rightarrow> addr set" where
  "mat_addrs g = {textMatrix g, textLineMatrix g}"

definition clip_addrs :: "pdfState \<Rightarrow> addr set" where
  "clip_addrs g = set_option (clippingPath g)"

subsection \<open>The host and the interpreter's own state\<close>

text \<open>An operation of the content stream: the pair \<^verbatim>\<open>(operand, operator)\<close>. An inline
  image comes as the pair of a dictionary (settings and data) and the operator
  \<^verbatim>\<open>'INLINE IMAGE'\<close>.\<close>

datatype op = Op "pdfobj list" pyname | INLINE_IMAGE "(string \<times> pdfobj) list" bytes

text \<open>An XObject of the page's resources. A form gives the font table \<^verbatim>\<open>FetchFonts\<close>
  finds in it, its \<^verbatim>\<open>/Matrix\<close> (\<open>None\<close> when it has none) and the operations of its
  content stream; an image is its dictionary and its \<^verbatim>\<open>_data\<close>.\<close>

datatype xobject =
    Form "(string \<times> string) list" "pdfobj list option" "op list"
  | Image "(string \<times> pdfobj) list" bytes
  | OtherXObject

text \<open>What the interpreter takes from outside the class: the parsers behind
  \<^verbatim>\<open>float()\<close> and \<^verbatim>\<open>int()\<close> on text, the two font scale factors of the parent window,
  the text extent of the device context, reportlab's \<^verbatim>\<open>stringWidth\<close> when it is
  installed, the stream filters of PyPDF2, the bitmap constructors of wx, the
  resources of the current page, and what \<^verbatim>\<open>stream[key]\<close> does for a key the stream
  dictionary lacks: PyPDF2 raises \<^verbatim>\<open>KeyError\<close>, while the code's tests for \<^verbatim>\<open>None\<close>
  expect \<^verbatim>\<open>None\<close>; \<open>missing_is_None\<close> says which.\<close>

record host =
  float_of_text :: "pdfobj \<Rightarrow> real option"
  int_of_text :: "pdfobj \<Rightarrow> int option"
  font_scale_metrics :: real
  font_scale_size :: real
  GetFullTextExtent :: "pdfobj \<Rightarrow> wxFont \<Rightarrow> py_error + (real \<times> real \<times> real \<times> real)"
  have_rlwidth :: bool
  stringWidth :: "pdfobj \<Rightarrow> string option \<Rightarrow> real option \<Rightarrow> py_error + real"
  LZWDecode :: "bytes \<Rightarrow> py_error + bytes"
  ASCII85Decode :: "bytes \<Rightarrow> py_error + bytes"
  FlateDecode :: "bytes \<Rightarrow> pdfobj \<Rightarrow> py_error + bytes"
  CCITTFaxDecode :: "bytes \<Rightarrow> pdfobj \<Rightarrow> py_error + bytes"
  Bitmap_FromBuffer :: "int \<Rightarrow> int \<Rightarrow> bytes \<Rightarrow> py_error + wxBitmap"
  Bitmap_FromJPEG :: "bytes \<Rightarrow> py_error + wxBitmap"
  page_XObject :: "(string \<times> xobject) list option"
  page_ExtGState :: "(string \<times> (string \<times> pdfobj) list) list option"
  missing_is_None :: bool

text \<open>The attributes of \<^verbatim>\<open>pypdfProcessor\<close> that \<^verbatim>\<open>ProcessOperators\<close> reads and writes,
  the store, and the module's list \<^verbatim>\<open>missing_fonts\<close>. \<open>saved_state\<close> is the Python
  list: \<^verbatim>\<open>append\<close> adds at its end and \<^verbatim>\<open>pop\<close> takes from its end.\<close>

record interp =
  gstate :: pdfState
  saved_state :: "pdfState list"
  heap :: store
  knownfont :: bool
  unimplemented :: "pyname list"
  formdrawings :: "(string \<times> drawcmd list) list"
  missing_fonts :: "string list"

text \<open>The start of a page in \<^verbatim>\<open>DrawFile\<close>: a new state and an empty stack.\<close>

definition DrawFile_page :: "interp \<Rightarrow> interp" where
  "DrawFile_page \<sigma> =
     (case pdfState_init (heap \<sigma>) of (g, st) \<Rightarrow>
        \<sigma>\<lparr>gstate := g, saved_state := [], heap := st\<rparr>)"

subsection \<open>Python operations on operands\<close>

text \<open>\<^verbatim>\<open>float(n)\<close> and \<^verbatim>\<open>int(n)\<close>.\<close>

fun py_float :: "host \<Rightarrow> pdfobj \<Rightarrow> py_error + real" where
  "py_float h (NumberObject i) = Inr (of_int i)"
| "py_float h (FloatObject x) = Inr x"
| "py_float h (ByteStringObject b) =
     (case float_of_text h (ByteStringObject b) of Some x \<Rightarrow> Inr x | None \<Rightarrow> Inl ValueError)"
| "py_float h (TextStringObject t) =
     (case float_of_text h (TextStringObject t) of Some x \<Rightarrow> Inr x | None \<Rightarrow> Inl ValueError)"
| "py_float h (NameObject t) =
     (case float_of_text h (NameObject t) of Some x \<Rightarrow> Inr x | None \<Rightarrow> Inl ValueError)"
| "py_float h (PyBool b) = Inr (of_bool b)"
| "py_float h _ = Inl TypeError"

fun py_int_of :: "host \<Rightarrow> pdfobj \<Rightarrow> py_error + int" where
  "py_int_of h (NumberObject i) = Inr i"
| "py_int_of h (FloatObject x) = Inr (py_int x)"
| "py_int_of h (ByteStringObject b) =
     (case int_of_text h (ByteStringObject b) of Some x \<Rightarrow> Inr x | None \<Rightarrow> Inl ValueError)"
| "py_int_of h (TextStringObject t) =
     (case int_of_text h (TextStringObject t) of Some x \<Rightarrow> Inr x | None \<Rightarrow> Inl ValueError)"
| "py_int_of h (NameObject t) =
     (case int_of_text h (NameObject t) of Some x \<Rightarrow> Inr x | None \<Rightarrow> Inl ValueError)"
| "py_int_of h (PyBool b) = Inr (of_bool b)"
| "py_int_of h _ = Inl TypeError"

text \<open>A list comprehension \<^verbatim>\<open>[f(n) for n in xs]\<close>: the first exception ends it.\<close>

fun map_err :: "('a \<Rightarrow> py_error + 'b) \<Rightarrow> 'a list \<Rightarrow> py_error + 'b list" where
  "map_err f [] = Inr []"
| "map_err f (x # xs) =
     (case f x of
        Inl e \<Rightarrow> Inl e
      | Inr y \<Rightarrow> (case map_err f xs of Inl e \<Rightarrow> Inl e | Inr ys \<Rightarrow> Inr (y # ys)))"

text \<open>\<^verbatim>\<open>xs[i]\<close> on a Python list.\<close>

definition item :: "'a list \<Rightarrow> nat \<Rightarrow> py_error + 'a" where
  "item xs i = (if i < length xs then Inr (xs ! i) else Inl IndexError)"

text \<open>\<^verbatim>\<open>x[i]\<close> and \<^verbatim>\<open>for n in x\<close> on an operand: arrays, byte strings and strings can be
  indexed and iterated.\<close>

fun py_index :: "pdfobj \<Rightarrow> nat \<Rightarrow> py_error + pdfobj" where
  "py_index (ArrayObject xs) i = item xs i"
| "py_index (ByteStringObject b) i = map_sum id (\<lambda>n. NumberObject (int n)) (item b i)"
| "py_index (TextStringObject t) i = map_sum id (\<lambda>c. TextStringObject [c]) (item t i)"
| "py_index (NameObject t) i = map_sum id (\<lambda>c. TextStringObject [of_char c]) (item t i)"
| "py_index (EncodedStreamObject d raw dat) i = Inl KeyError"
| "py_index _ i = Inl TypeError"

fun py_iter :: "pdfobj \<Rightarrow> py_error + pdfobj list" where
  "py_iter (ArrayObject xs) = Inr xs"
| "py_iter (ByteStringObject b) = Inr (map (\<lambda>n. NumberObject (int n)) b)"
| "py_iter (TextStringObject t) = Inr (map (\<lambda>c. TextStringObject [c]) t)"
| "py_iter (NameObject t) = Inr (map (\<lambda>c. TextStringObject [of_char c]) t)"
| "py_iter (EncodedStreamObject d raw dat) = Inr (map (\<lambda>(k, v). NameObject k) d)"
| "py_iter _ = Inl TypeError"

text \<open>The truth value of an object, as \<^verbatim>\<open>if g.lineDashArray\<close> takes it; the boolean and
  null objects of PyPDF2 define none of their own and are true.\<close>

fun truthy :: "pdfobj \<Rightarrow> bool" where
  "truthy (NumberObject i) = (i \<noteq> 0)"
| "truthy (FloatObject x) = (x \<noteq> 0)"
| "truthy (ByteStringObject b) = (b \<noteq> [])"
| "truthy (TextStringObject t) = (t \<noteq> [])"
| "truthy (NameObject t) = (t \<noteq> [])"
| "truthy (ArrayObject xs) = (xs \<noteq> [])"
| "truthy (EncodedStreamObject d raw dat) = (d \<noteq> [])"
| "truthy PyNone = False"
| "truthy (PyBool b) = b"
| "truthy _ = True"

text \<open>A dictionary with string keys, read with an operand as the key: a name or a
  string finds its entry, a list cannot be hashed, anything else is no key of it.\<close>

fun dict_get :: "(string \<times> 'v) list \<Rightarrow> pdfobj \<Rightarrow> py_error + 'v" where
  "dict_get d (NameObject k) = (case map_of d k of Some v \<Rightarrow> Inr v | None \<Rightarrow> Inl KeyError)"
| "dict_get d (TextStringObject k) =
     (case map_of (map (\<lambda>(n, v). (map of_char n :: nat list, v)) d) k of
        Some v \<Rightarrow> Inr v | None \<Rightarrow> Inl KeyError)"
| "dict_get d (ArrayObject xs) = Inl TypeError"
| "dict_get d (EncodedStreamObject dd raw dat) = Inl TypeError"
| "dict_get d (IndirectObject x) = Inl TypeError"
| "dict_get d _ = Inl KeyError"

text \<open>\<^verbatim>\<open>s.lower()\<close> on a font name (ASCII), and \<^verbatim>\<open>s.count(sub)\<close> taken as a truth value:
  whether \<open>sub\<close> occurs in \<open>s\<close>.\<close>

definition lower_char :: "char \<Rightarrow> char" where
  "lower_char c =
     (let n = (of_char c :: nat) in if 65 \<le> n \<and> n \<le> 90 then char_of (n + 32) else c)"

definition lower :: "string \<Rightarrow> string" where
  "lower s = map lower_char s"

fun occurs :: "'a list \<Rightarrow> 'a list \<Rightarrow> bool" where
  "occurs sub [] = (sub = [])"
| "occurs sub (y # ys) = (take (length sub) (y # ys) = sub \<or> occurs sub ys)"

text \<open>\<^verbatim>\<open>b.split(b' ')\<close> on bytes, and the UTF-8 bytes of a character that
  \<^verbatim>\<open>decode('latin-1')\<close> produced.\<close>

fun split_on :: "nat \<Rightarrow> bytes \<Rightarrow> bytes list" where
  "split_on s [] = [[]]"
| "split_on s (x # xs) =
     (let r = split_on s xs in if x = s then [] # r else (x # hd r) # tl r)"

definition utf8_latin1 :: "nat \<Rightarrow> bytes" where
  "utf8_latin1 c = (if c < 128 then [c] else [192 + c div 64, 128 + c mod 64])"

subsection \<open>Fonts and text\<close>

definition GetFillRGBA :: "pdfState \<Rightarrow> wxColour" where
  "GetFillRGBA g =
     Colour (Red (fillRGB g)) (Green (fillRGB g)) (Blue (fillRGB g)) (fillTransparency g * 255)"

definition GetStrokeRGBA :: "pdfState \<Rightarrow> wxColour" where
  "GetStrokeRGBA g =
     Colour (Red (strokeRGB g)) (Green (strokeRGB g)) (Blue (strokeRGB g))
       (strokeTransparency g * 255)"

text \<open>The family and face \<^verbatim>\<open>SetFont\<close> picks for a lower-case font name; \<open>None\<close> is
  its last branch, the unknown font, drawn as Arial.\<close>

text \<open>\<^verbatim>\<open>SetFont\<close> sets \<^verbatim>\<open>self.knownfont\<close> before it calls \<^verbatim>\<open>pdfont.lower()\<close>, which raises
  \<^verbatim>\<open>AttributeError\<close> when the font is \<^verbatim>\<open>None\<close>; \<^verbatim>\<open>max(1, size)\<close> raises \<^verbatim>\<open>TypeError\<close>
  when the size is \<^verbatim>\<open>None\<close>. The state is returned with the error: a caller that
  catches the exception goes on with it.\<close>

definition font_guess :: "string \<Rightarrow> (wxFamily \<times> string) option" where
  "font_guess pdfont =
     (if occurs ''courier'' pdfont then Some (FONTFAMILY_MODERN, ''Courier New'')
      else if occurs ''helvetica'' pdfont then Some (FONTFAMILY_SWISS, ''Arial'')
      else if occurs ''times'' pdfont then Some (FONTFAMILY_ROMAN, ''Times New Roman'')
      else if occurs ''symbol'' pdfont then Some (FONTFAMILY_DEFAULT, ''Symbol'')
      else if occurs ''zapfdingbats'' pdfont then Some (FONTFAMILY_DEFAULT, ''Wingdings'')
      else None)"

definition SetFont :: "string option \<Rightarrow> real option \<Rightarrow> interp \<Rightarrow> (py_error + wxFont) \<times> interp" where
  "SetFont pdfont0 size0 \<sigma> =
     (let \<sigma>1 = \<sigma>\<lparr>knownfont := True\<rparr>
      in case pdfont0 of
           None \<Rightarrow> (Inl AttributeError, \<sigma>1)
         | Some name \<Rightarrow>
             (let pdfont = lower name;
                  (fam, fnt, \<sigma>2) =
                    (case font_guess pdfont of
                       Some (fam, fnt) \<Rightarrow> (fam, fnt, \<sigma>1)
                     | None \<Rightarrow>
                         (FONTFAMILY_SWISS, ''Arial'',
                          \<sigma>1\<lparr>knownfont := False,
                             missing_fonts :=
                               (if pdfont \<in> set (missing_fonts \<sigma>1) then missing_fonts \<sigma>1
                                else missing_fonts \<sigma>1 @ [pdfont])\<rparr>));
                  wgt = (if occurs ''bold'' pdfont then FONTWEIGHT_BOLD else FONTWEIGHT_NORMAL);
                  sty = (if occurs ''oblique'' pdfont \<or> occurs ''italic'' pdfont
                         then FONTSTYLE_ITALIC else FONTSTYLE_NORMAL)
              in case size0 of
                   None \<Rightarrow> (Inl TypeError, \<sigma>2)
                 | Some sz \<Rightarrow>
                     (Inr \<lparr>pointSize = max 1 sz, family = fam, style = sty, weight = wgt,
                           faceName = fnt, scaled = 1\<rparr>, \<sigma>2)))"

definition Scale :: "real \<Rightarrow> wxFont \<Rightarrow> wxFont" where
  "Scale x f = f\<lparr>scaled := scaled f * x\<rparr>"

text \<open>\<^verbatim>\<open>textitem += b' '\<close>, \<^verbatim>\<open>text.split(b' ')\<close> and \<^verbatim>\<open>len(e2)\<close> on an operand.\<close>

fun add_space :: "pdfobj \<Rightarrow> py_error + pdfobj" where
  "add_space (ByteStringObject b) = Inr (ByteStringObject (b @ [32]))"
| "add_space (ArrayObject xs) = Inr (ArrayObject (xs @ [NumberObject 32]))"
| "add_space _ = Inl TypeError"

fun py_split :: "pdfobj \<Rightarrow> py_error + pdfobj list" where
  "py_split (ByteStringObject b) = Inr (map ByteStringObject (split_on 32 b))"
| "py_split (TextStringObject t) = Inl TypeError"
| "py_split (NameObject t) = Inl TypeError"
| "py_split _ = Inl AttributeError"

fun py_len :: "pdfobj \<Rightarrow> py_error + nat" where
  "py_len (ByteStringObject b) = Inr (length b)"
| "py_len (TextStringObject t) = Inr (length t)"
| "py_len (NameObject t) = Inr (length t)"
| "py_len (ArrayObject xs) = Inr (length xs)"
| "py_len (EncodedStreamObject d raw dat) = Inr (length d)"
| "py_len _ = Inl TypeError"

text \<open>\<^verbatim>\<open>DrawTextItem\<close>: reads the position from the text matrix, measures the item and
  moves the matrix's x on, in place. \<open>text_extent\<close> is its measuring: the extent of
  the device context, with the width replaced by reportlab's where that is installed
  and the font is a known one.\<close>

definition text_extent ::
  "host \<Rightarrow> bool \<Rightarrow> pdfState \<Rightarrow> pdfobj \<Rightarrow> wxFont \<Rightarrow> py_error + (real \<times> real \<times> real)" where
  "text_extent h known g textitem f =
     bnd (GetFullTextExtent h textitem f) (\<lambda>(wid, ht, descend, x_lead).
     bnd (if have_rlwidth h \<and> known
          then stringWidth h textitem (font g) (fontSize g) else Inr wid) (\<lambda>width.
       Inr (width, ht, descend)))"

definition DrawTextItem ::
  "host \<Rightarrow> pdfobj \<Rightarrow> wxFont \<Rightarrow> interp \<Rightarrow> (py_error + drawcmd) \<times> interp" where
  "DrawTextItem h textitem0 f \<sigma> =
     (let g = gstate \<sigma>; tm = mat_at (heap \<sigma>) (textMatrix g)
      in sbnd (lift (item tm 4)) (\<lambda>x.
         sbnd (lift (item tm 5)) (\<lambda>y5.
         sbnd (lift (if 0 < wordSpacing g then add_space textitem0 else Inr textitem0))
           (\<lambda>textitem.
         sbnd (lift (text_extent h (knownfont \<sigma>) g textitem f))
           (\<lambda>(width, ht, descend) \<sigma>'.
              (let y = y5 + textRise g
               in (Inr (DrawText textitem x (- y - (ht - descend))),
                   \<sigma>'\<lparr>heap := set_mat (textMatrix g) (tm[4 := x + (width + wordSpacing g)])
                                 (heap \<sigma>')\<rparr>)))))) \<sigma>)"

fun DrawTextItems ::
  "host \<Rightarrow> pdfobj list \<Rightarrow> wxFont \<Rightarrow> drawcmd list \<Rightarrow> interp
     \<Rightarrow> (py_error + drawcmd list) \<times> interp" where
  "DrawTextItems h [] f dlist \<sigma> = (Inr dlist, \<sigma>)"
| "DrawTextItems h (x # xs) f dlist \<sigma> =
     (case DrawTextItem h x f \<sigma> of
        (Inl e, \<sigma>') \<Rightarrow> (Inl e, \<sigma>')
      | (Inr c, \<sigma>') \<Rightarrow> DrawTextItems h xs f (dlist @ [c]) \<sigma>')"

definition DrawTextString :: "host \<Rightarrow> pdfobj \<Rightarrow> interp \<Rightarrow> (py_error + drawcmd list) \<times> interp" where
  "DrawTextString h text \<sigma> =
     (let g = gstate \<sigma>
      in sbnd (SetFont (font g) (fontSize g)) (\<lambda>f0'.
         sbnd (SetFont (font g) (fontSize g)) (\<lambda>f1'.
         sbnd (lift (if 0 < wordSpacing g then py_split text else Inr [text])) (\<lambda>textlist.
           (let f0 = Scale (font_scale_metrics h) f0';
                f1 = Scale (font_scale_size h) f1';
                dlist = [SetFont_cmd f1 (GetFillRGBA g)]
            in DrawTextItems h textlist f0 dlist)))) \<sigma>)"

subsection \<open>Paths\<close>

text \<open>The table \<^verbatim>\<open>acts\<close> of \<^verbatim>\<open>DrawPath\<close>: stroke, fill and rule for a painting operator.\<close>

definition acts :: "string \<Rightarrow> (bool \<times> bool \<times> wxRule) option" where
  "acts action =
     (if action = ''S'' then Some (True, False, Rule_0)
      else if action = ''s'' then Some (True, False, Rule_0)
      else if action = ''f'' then Some (False, True, WINDING_RULE)
      else if action = ''F'' then Some (False, True, WINDING_RULE)
      else if action = ''f*'' then Some (False, True, ODDEVEN_RULE)
      else if action = ''B'' then Some (True, True, WINDING_RULE)
      else if action = ''B*'' then Some (True, True, ODDEVEN_RULE)
      else if action = ''b'' then Some (True, True, WINDING_RULE)
      else if action = ''b*'' then Some (True, True, ODDEVEN_RULE)
      else if action = ''n'' then Some (False, False, Rule_0)
      else None)"

text \<open>The loop \<^verbatim>\<open>for xylist, op in path\<close>. \<open>cur\<close> holds \<^verbatim>\<open>xc, yc\<close>, which are unbound
  until a move or a line has set them; a segment with too few coordinates raises
  \<^verbatim>\<open>IndexError\<close>. The y of every point is negated.\<close>

definition path_seg ::
  "pathseg \<Rightarrow> (real \<times> real) option \<times> drawcmd list
     \<Rightarrow> py_error + ((real \<times> real) option \<times> drawcmd list)" where
  "path_seg seg s =
     (case seg of (xylist, opr) \<Rightarrow> case s of (cur, dlist) \<Rightarrow>
      if opr = ''m'' then
        (if length xylist < 2 then Inl IndexError
         else (let x0 = xylist ! 0; y0 = - (xylist ! 1)
               in Inr (Some (x0, y0), dlist @ [MoveToPoint x0 y0])))
      else if opr = ''l'' then
        (if length xylist < 2 then Inl IndexError
         else (let x2 = xylist ! 0; y2 = - (xylist ! 1)
               in Inr (Some (x2, y2), dlist @ [AddLineToPoint x2 y2])))
      else if opr = ''re'' then
        (if length xylist < 4 then Inl IndexError
         else (let x = xylist ! 0; y = - (xylist ! 1); w = xylist ! 2; h = xylist ! 3;
                   retuple = (if h < 0 then (x, y, w, - h) else (x, y - h, w, h))
               in case retuple of (r0, r1, r2, r3) \<Rightarrow>
                    Inr (cur, dlist @ [AddRectangle r0 r1 r2 r3])))
      else if opr = ''c'' \<or> opr = ''v'' \<or> opr = ''y'' then
        (if opr = ''v'' \<and> cur = None then Inl UnboundLocalError
         else if length xylist < 4 then Inl IndexError
         else if opr = ''c'' \<and> length xylist < 6 then Inl IndexError
         else
           (let args0 = (if opr = ''v'' then (case cur of Some (xc, yc) \<Rightarrow> [xc, yc] | None \<Rightarrow> [])
                         else []);
                args1 = args0 @ [xylist ! 0, - (xylist ! 1), xylist ! 2, - (xylist ! 3)];
                args2 = (if opr = ''y'' then args1 @ [xylist ! 2, - (xylist ! 3)] else args1);
                args3 = (if opr = ''c'' then args2 @ [xylist ! 4, - (xylist ! 5)] else args2)
            in Inr (cur, dlist @ [AddCurveToPoint args3])))
      else if opr = ''h'' then Inr (cur, dlist @ [CloseSubpath])
      else Inr (cur, dlist))"

fun path_cmds ::
  "pathseg list \<Rightarrow> (real \<times> real) option \<times> drawcmd list
     \<Rightarrow> py_error + ((real \<times> real) option \<times> drawcmd list)" where
  "path_cmds [] s = Inr s"
| "path_cmds (seg # rest) s =
     (case path_seg seg s of Inl e \<Rightarrow> Inl e | Inr s' \<Rightarrow> path_cmds rest s')"

text \<open>\<^verbatim>\<open>DrawPath\<close> appends the closing segment to the caller's path list in place, so the
  path is returned with the commands.\<close>

definition DrawPath ::
  "pdfState \<Rightarrow> pathseg list \<Rightarrow> string \<Rightarrow> py_error + (drawcmd list \<times> pathseg list)" where
  "DrawPath g path0 action =
     (case acts action of
        None \<Rightarrow> Inl KeyError
      | Some (stroke, fill, rule) \<Rightarrow>
          (let path = (if action = ''s'' \<or> action = ''b'' \<or> action = ''b*''
                       then path0 @ [([], ''h'')] else path0);
               pen = (if stroke then
                        SetPen (Pen \<lparr>pen_colour = GetStrokeRGBA g, pen_width = lineWidth g,
                                     pen_style = (if truthy (lineDashArray g)
                                                  then PENSTYLE_USER_DASH else PENSTYLE_SOLID),
                                     pen_cap = lineCapStyle g, pen_join = lineJoinStyle g,
                                     pen_dashes = (if truthy (lineDashArray g)
                                                   then Some (lineDashArray g) else None)\<rparr>)
                      else SetPen TRANSPARENT_PEN);
               brush = (if fill then SetBrush (Brush (GetFillRGBA g))
                        else SetBrush TRANSPARENT_BRUSH)
           in case path_cmds path (None, [pen, brush, CreatePath]) of
                Inl e \<Rightarrow> Inl e
              | Inr (cur, dlist) \<Rightarrow> Inr (dlist @ [DrawPath_cmd rule], path)))"

text \<open>\<^verbatim>\<open>SetClippingPath\<close> records the path in the state and draws nothing.\<close>

definition SetClippingPath :: "pathseg list \<Rightarrow> string \<Rightarrow> interp \<Rightarrow> drawcmd list \<times> interp" where
  "SetClippingPath path rule \<sigma> =
     (let g = gstate \<sigma>;
          (a, st) = (case clippingPath g of
                       None \<Rightarrow> new_clip [] (heap \<sigma>)
                     | Some a \<Rightarrow> (a, heap \<sigma>));
          st' = set_clip a (clip_at st a @ [path]) st
      in ([], \<sigma>\<lparr>gstate := g\<lparr>clippingPath := Some a, ClippingRule := Some rule\<rparr>, heap := st'\<rparr>))"

subsection \<open>Extended graphics state\<close>

definition cap_table :: "real \<Rightarrow> py_error + wxCap" where
  "cap_table ix =
     (if ix = 0 then Inr CAP_BUTT else if ix = 1 then Inr CAP_ROUND
      else if ix = 2 then Inr CAP_PROJECTING else Inl KeyError)"

definition join_table :: "real \<Rightarrow> py_error + wxJoin" where
  "join_table ix =
     (if ix = 0 then Inr JOIN_MITER else if ix = 1 then Inr JOIN_ROUND
      else if ix = 2 then Inr JOIN_BEVEL else Inl KeyError)"

text \<open>One round of the loop of \<^verbatim>\<open>LoadResource\<close>, for the key \<open>EGS\<close> with the value
  \<open>EGV\<close>. The second branch for \<^verbatim>\<open>"/BM"\<close>, which would set \<^verbatim>\<open>blendMode\<close>, is never
  reached.\<close>

definition LoadResource_key :: "host \<Rightarrow> string \<times> pdfobj \<Rightarrow> pdfState \<Rightarrow> py_error + pdfState" where
  "LoadResource_key h kv g =
     (case kv of (EGS, EGV) \<Rightarrow>
      if EGS = ''/Type'' then Inr g
      else if EGS = ''/SA'' then Inr (g\<lparr>automaticStrokeAdjustment := EGV\<rparr>)
      else if EGS = ''/BM'' then Inr g
      else if EGS = ''/CA'' then
        map_sum id (\<lambda>v. g\<lparr>strokeTransparency := v\<rparr>) (py_float h EGV)
      else if EGS = ''/ca'' then
        map_sum id (\<lambda>v. g\<lparr>fillTransparency := v\<rparr>) (py_float h EGV)
      else if EGS = ''/LW'' then
        map_sum id (\<lambda>v. g\<lparr>lineWidth := max v 1\<rparr>) (py_float h EGV)
      else if EGS = ''/LC'' then
        (case py_float h EGV of Inl e \<Rightarrow> Inl e
         | Inr ix \<Rightarrow> map_sum id (\<lambda>c. g\<lparr>lineCapStyle := c\<rparr>) (cap_table ix))
      else if EGS = ''/LJ'' then
        (case py_float h EGV of Inl e \<Rightarrow> Inl e
         | Inr ix \<Rightarrow> map_sum id (\<lambda>c. g\<lparr>lineJoinStyle := c\<rparr>) (join_table ix))
      else if EGS = ''/ML'' then
        map_sum id (\<lambda>v. g\<lparr>miterLimit := Some v\<rparr>) (py_float h EGV)
      else if EGS = ''/D'' then
        (case py_index EGV 0 of Inl e \<Rightarrow> Inl e
         | Inr d0 \<Rightarrow>
             (case py_index EGV 1 of Inl e \<Rightarrow> Inl e
              | Inr d1 \<Rightarrow> Inr (g\<lparr>lineDashArray := d0, lineDashPhase := d1\<rparr>)))
      else if EGS = ''/RI'' then Inr g
      else if EGS = ''/OP'' then Inr (g\<lparr>overprint := EGV\<rparr>)
      else if EGS = ''/op'' then Inr (g\<lparr>overprintNS := EGV\<rparr>)
      else if EGS = ''/OPM'' then Inr (g\<lparr>overprintMode := EGV\<rparr>)
      else Inr g)"

fun LoadResource :: "host \<Rightarrow> (string \<times> pdfobj) list \<Rightarrow> pdfState \<Rightarrow> py_error + pdfState" where
  "LoadResource h [] g = Inr g"
| "LoadResource h (kv # rest) g =
     (case LoadResource_key h kv g of Inl e \<Rightarrow> Inl e | Inr g' \<Rightarrow> LoadResource h rest g')"

subsection \<open>Images\<close>

text \<open>\<^verbatim>\<open>s in x\<close> for a string \<open>s\<close>: an element of an array, a part of a string, a key of
  a dictionary.\<close>

fun py_contains :: "pdfobj \<Rightarrow> string \<Rightarrow> py_error + bool" where
  "py_contains (ArrayObject xs) s = Inr (list_ex (\<lambda>x. py_eq_str x s) xs)"
| "py_contains (NameObject t) s = Inr (occurs s t)"
| "py_contains (TextStringObject t) s = Inr (occurs (map of_char s) t)"
| "py_contains (EncodedStreamObject d raw dat) s = Inr (map_of d s \<noteq> None)"
| "py_contains _ s = Inl TypeError"

text \<open>\<^verbatim>\<open>a in x or b in x\<close>.\<close>

definition contains2 :: "pdfobj \<Rightarrow> string \<Rightarrow> string \<Rightarrow> py_error + bool" where
  "contains2 x a b =
     (case py_contains x a of
        Inl e \<Rightarrow> Inl e
      | Inr True \<Rightarrow> Inr True
      | Inr False \<Rightarrow> py_contains x b)"

fun getObject :: "pdfobj \<Rightarrow> pdfobj" where
  "getObject (IndirectObject x) = getObject x"
| "getObject x = x"

text \<open>\<^verbatim>\<open>stream[key]\<close> (the value's \<^verbatim>\<open>getObject()\<close>) and \<^verbatim>\<open>stream.get(key)\<close>.\<close>

definition stream_item :: "host \<Rightarrow> (string \<times> pdfobj) list \<Rightarrow> string \<Rightarrow> py_error + pdfobj" where
  "stream_item h d k =
     (case map_of d k of
        Some v \<Rightarrow> Inr (getObject v)
      | None \<Rightarrow> if missing_is_None h then Inr PyNone else Inl KeyError)"

definition stream_get :: "(string \<times> pdfobj) list \<Rightarrow> string \<Rightarrow> pdfobj" where
  "stream_get d k = (case map_of d k of Some v \<Rightarrow> v | None \<Rightarrow> PyNone)"

text \<open>An argument that has to be a Python integer.\<close>

fun int_arg :: "pdfobj \<Rightarrow> py_error + int" where
  "int_arg (NumberObject i) = Inr i"
| "int_arg (PyBool b) = Inr (of_bool b)"
| "int_arg _ = Inl TypeError"

text \<open>One element of \<^verbatim>\<open>bytearray(xs)\<close>: an integer in \<^verbatim>\<open>range(256)\<close>.\<close>

definition byte_of :: "pdfobj \<Rightarrow> py_error + nat" where
  "byte_of x =
     (case int_arg x of
        Inl e \<Rightarrow> Inl e
      | Inr i \<Rightarrow> if 0 \<le> i \<and> i < 256 then Inr (nat i) else Inl ValueError)"

definition UnpackImage :: "host \<Rightarrow> bytes \<Rightarrow> pdfobj \<Rightarrow> pdfobj \<Rightarrow> py_error + bytes" where
  "UnpackImage h data0 filters decode_parms =
     bnd (py_contains filters ''/LZWDecode'') (\<lambda>c1.
     bnd (if c1 then LZWDecode h data0 else Inr data0) (\<lambda>data1.
     bnd (contains2 filters ''/A85'' ''/ASCII85Decode'') (\<lambda>c2.
     bnd (if c2 then ASCII85Decode h data1 else Inr data1) (\<lambda>data2.
     bnd (contains2 filters ''/Fl'' ''/FlateDecode'') (\<lambda>c3.
     bnd (if c3 then FlateDecode h data2 PyNone else Inr data2) (\<lambda>data3.
     bnd (contains2 filters ''/CCF'' ''/CCITTFaxDecode'') (\<lambda>c4.
       (if c4 then CCITTFaxDecode h data3 decode_parms else Inr data3))))))))"

text \<open>What kind of object an object is (\<^verbatim>\<open>isinstance\<close>).\<close>

fun bytes_of :: "pdfobj \<Rightarrow> bytes option" where
  "bytes_of (ByteStringObject p) = Some p"
| "bytes_of _ = None"

fun array_of :: "pdfobj \<Rightarrow> pdfobj list option" where
  "array_of (ArrayObject xs) = Some xs"
| "array_of _ = None"

fun stream_of :: "pdfobj \<Rightarrow> ((string \<times> pdfobj) list \<times> bytes \<times> bytes) option" where
  "stream_of (EncodedStreamObject d raw dat) = Some (d, raw, dat)"
| "stream_of _ = None"

fun indirect_of :: "pdfobj \<Rightarrow> pdfobj option" where
  "indirect_of (IndirectObject x) = Some x"
| "indirect_of _ = None"

text \<open>\<^verbatim>\<open>DeindexImage\<close> as the callers use it, with objects for the width, the height
  and the palette. A palette that is not \<^verbatim>\<open>bytes\<close> makes the first \<^verbatim>\<open>d2b.write\<close> raise
  \<^verbatim>\<open>TypeError\<close>; with no data or another depth there is no write.\<close>

definition DeindexImage_call ::
  "pdfobj \<Rightarrow> pdfobj \<Rightarrow> bytes \<Rightarrow> pdfobj \<Rightarrow> pdfobj \<Rightarrow> pdfobj \<Rightarrow> py_error + bytes" where
  "DeindexImage_call width height data x_depth x_palette_size x_palette =
     bnd (int_arg width) (\<lambda>w.
     bnd (int_arg height) (\<lambda>ht.
       (case bytes_of x_palette of
          Some p \<Rightarrow> DeindexImage w ht data x_depth x_palette_size p 3
        | None \<Rightarrow>
            bnd (bytes_of_size (w * ht * 3)) (\<lambda>buffer.
              if data \<noteq> [] \<and> (py_eq_int x_depth 1 \<or> py_eq_int x_depth 2
                    \<or> py_eq_int x_depth 4 \<or> py_eq_int x_depth 8)
              then Inl TypeError else Inr buffer))))"

definition FromBuffer_call :: "host \<Rightarrow> pdfobj \<Rightarrow> pdfobj \<Rightarrow> bytes \<Rightarrow> py_error + wxBitmap" where
  "FromBuffer_call h width height data =
     bnd (int_arg width) (\<lambda>w. bnd (int_arg height) (\<lambda>ht. Bitmap_FromBuffer h w ht data))"

text \<open>The built-in grey palettes.\<close>

definition grey_palette :: "pdfobj \<Rightarrow> bytes" where
  "grey_palette x_depth =
     (if py_eq_int x_depth 1 then [0, 0, 0, 255, 255, 255]
      else if py_eq_int x_depth 2 then concat (map (\<lambda>x. [x, x, x]) [0, 85, 170, 255])
      else if py_eq_int x_depth 4 then concat (map (\<lambda>x. [17 * x, 17 * x, 17 * x]) [0..<16])
      else concat (map (\<lambda>x. [x, x, x]) [0..<256]))"

text \<open>The head of the image branch of \<^verbatim>\<open>InsertXObject\<close>: width, height, depth
  (\<^verbatim>\<open>x_size\<close> is computed from them and raises \<^verbatim>\<open>TypeError\<close> unless all three are
  numbers) and the colour space.\<close>

definition image_head ::
  "host \<Rightarrow> (string \<times> pdfobj) list \<Rightarrow> py_error + (pdfobj \<times> pdfobj \<times> pdfobj \<times> pdfobj)" where
  "image_head h stream =
     bnd (stream_item h stream ''/Width'') (\<lambda>width.
     bnd (stream_item h stream ''/Height'') (\<lambda>height.
     bnd (stream_item h stream ''/BitsPerComponent'') (\<lambda>x_depth.
       if isl (num_of width) \<or> isl (num_of height) \<or> isl (num_of x_depth) then Inl TypeError
       else bnd (stream_item h stream ''/ColorSpace'') (\<lambda>x_color.
              Inr (width, height, x_depth, x_color)))))"

text \<open>The test for an indexed colour space. The result is \<^verbatim>\<open>x_indexed\<close>,
  \<^verbatim>\<open>x_palette_size\<close>, \<^verbatim>\<open>x_palette\<close> and the new \<^verbatim>\<open>x_color\<close>.\<close>

definition palette_object :: "pdfobj \<Rightarrow> pdfobj" where
  "palette_object x_palette =
     (case indirect_of x_palette of
        Some x \<Rightarrow>
          (case stream_of (getObject x) of
             Some (d, raw, dat) \<Rightarrow> ByteStringObject dat
           | None \<Rightarrow> getObject x)
      | None \<Rightarrow> x_palette)"

definition image_indexed :: "pdfobj \<Rightarrow> py_error + (bool \<times> pdfobj \<times> pdfobj \<times> pdfobj)" where
  "image_indexed x_color =
     (if x_color = PyNone then Inr (False, PyNone, PyNone, x_color)
      else
        bnd (py_contains x_color ''/Indexed'') (\<lambda>indexed.
          if \<not> indexed then Inr (False, PyNone, PyNone, x_color)
          else
            bnd (py_index x_color 2) (\<lambda>x_palette_size.
            bnd (py_index x_color 3) (\<lambda>x_palette.
            bnd (py_index x_color 1) (\<lambda>base.
              Inr (True, x_palette_size, palette_object x_palette, getObject base))))))"

text \<open>The chain that decides how the decoded data become a bitmap. The result is
  the pair of the local variables \<^verbatim>\<open>RGBdata\<close> and \<^verbatim>\<open>bitmap\<close>, \<open>None\<close> for one that
  was never assigned: the branches that only print leave both unbound, and the
  branch for 8-bit RGB catches the exception of \<^verbatim>\<open>FromBuffer\<close>. In the branch for an
  indexed grey image, \<^verbatim>\<open>palette\<close> is read before any assignment.\<close>

definition deindexed_bitmap ::
  "host \<Rightarrow> pdfobj \<Rightarrow> pdfobj \<Rightarrow> bytes \<Rightarrow> pdfobj \<Rightarrow> pdfobj \<Rightarrow> pdfobj
     \<Rightarrow> py_error + (bytes option \<times> wxBitmap option)" where
  "deindexed_bitmap h width height data x_depth x_palette_size x_palette =
     bnd (DeindexImage_call width height data x_depth x_palette_size x_palette) (\<lambda>RGBdata.
     bnd (FromBuffer_call h width height RGBdata) (\<lambda>bitmap.
       Inr (Some RGBdata, Some bitmap)))"

definition image_bitmap ::
  "host \<Rightarrow> pdfobj \<Rightarrow> pdfobj \<Rightarrow> pdfobj \<Rightarrow> pdfobj \<Rightarrow> bool \<Rightarrow> pdfobj \<Rightarrow> pdfobj \<Rightarrow> pdfobj
     \<Rightarrow> bytes \<Rightarrow> py_error + (bytes option \<times> wxBitmap option)" where
  "image_bitmap h width height x_depth x_color x_indexed x_palette_size x_palette filters data =
     bnd (contains2 filters ''/DCT'' ''/DCTDecode'') (\<lambda>dct.
      if dct then bnd (Bitmap_FromJPEG h data) (\<lambda>bitmap. Inr (None, Some bitmap))
      else if \<not> x_indexed \<and> py_eq_str x_color ''/DeviceRGB'' \<and> py_eq_int x_depth 8 then
        (case FromBuffer_call h width height data of
           Inl e \<Rightarrow> Inr (Some data, None)
         | Inr bitmap \<Rightarrow> Inr (Some data, Some bitmap))
      else if x_color = PyNone \<and> \<not> py_eq_int x_depth 1 then Inr (None, None)
      else if x_indexed \<and> py_eq_str x_color ''/DeviceRGB'' then
        deindexed_bitmap h width height data x_depth x_palette_size x_palette
      else if x_indexed \<and> py_eq_str x_color ''/DeviceGray'' then Inl UnboundLocalError
      else if x_indexed then bnd (py_len x_palette) (\<lambda>n. Inr (None, None))
      else if py_eq_str x_color ''/DeviceGray''
                \<and> (py_eq_int x_depth 1 \<or> py_eq_int x_depth 2
                     \<or> py_eq_int x_depth 4 \<or> py_eq_int x_depth 8) then
        (let palette = grey_palette x_depth;
             palette_size = NumberObject (int (length palette))
         in deindexed_bitmap h width height data x_depth palette_size (ByteStringObject palette))
      else if x_color = PyNone \<and> py_eq_int x_depth 1 then
        (let palette = [0, 0, 0, 255, 255, 255];
             palette_size = NumberObject (int (length palette))
         in deindexed_bitmap h width height data x_depth palette_size (ByteStringObject palette))
      else Inr (None, None))"

text \<open>The mask: none, a colour key (a list of six numbers), or a mask stream. Reading
  \<^verbatim>\<open>RGBdata\<close> or \<^verbatim>\<open>bitmap\<close> while it is unbound raises \<^verbatim>\<open>UnboundLocalError\<close>.\<close>

definition bound :: "'a option \<Rightarrow> py_error + 'a" where
  "bound v = (case v of None \<Rightarrow> Inl UnboundLocalError | Some x \<Rightarrow> Inr x)"

definition mask_colour_key ::
  "host \<Rightarrow> pdfobj list \<Rightarrow> pdfobj \<Rightarrow> pdfobj \<Rightarrow> bytes option \<Rightarrow> wxBitmap option
     \<Rightarrow> py_error + wxBitmap option" where
  "mask_colour_key h x_masked width height RGBdata bitmap =
     bnd (map_err byte_of x_masked) (\<lambda>ck_bytes.
       if length ck_bytes \<noteq> 6 then Inl ValueError
       else
         (let r9 = ck_bytes ! 1; g9 = ck_bytes ! 3; b9 = ck_bytes ! 5;
              ck_key = [r9, g9, b9]
          in bnd (bound RGBdata) (\<lambda>rgb.
             bnd (FixColour rgb ck_bytes ck_key) (\<lambda>mask_data.
             bnd (FromBuffer_call h width height mask_data) (\<lambda>mask_bitmap.
             bnd (bound bitmap) (\<lambda>b.
               Inr (Some (SetMask b mask_bitmap (Colour3 (int r9) (int g9) (int b9))))))))))"

definition mask_stream ::
  "host \<Rightarrow> pdfobj \<Rightarrow> wxBitmap option \<Rightarrow> py_error + wxBitmap option" where
  "mask_stream h x_masked bitmap =
     (case stream_of (getObject x_masked) of
        None \<Rightarrow> Inl TypeError
      | Some (x_mo, mask_data0, dat) \<Rightarrow>
          bnd (stream_item h x_mo ''/Filter'') (\<lambda>mask_filters.
          bnd (stream_item h x_mo ''/DecodeParms'') (\<lambda>mask_decode_parms.
          bnd (stream_item h x_mo ''/Height'') (\<lambda>mask_height.
          bnd (stream_item h x_mo ''/Width'') (\<lambda>mask_width.
          bnd (UnpackImage h mask_data0 mask_filters mask_decode_parms) (\<lambda>mask_data.
          bnd (DeindexImage_call mask_width mask_height mask_data (NumberObject 1)
                 (NumberObject 6) (ByteStringObject [0, 0, 0, 255, 255, 255])) (\<lambda>mask_RGB.
          bnd (FromBuffer_call h mask_width mask_height mask_RGB) (\<lambda>mask_bitmap.
          bnd (bound bitmap) (\<lambda>b.
            Inr (Some (SetMask b mask_bitmap (Colour3 255 255 255))))))))))))"

definition image_mask ::
  "host \<Rightarrow> (string \<times> pdfobj) list \<Rightarrow> pdfobj \<Rightarrow> pdfobj \<Rightarrow> bytes option \<Rightarrow> wxBitmap option
     \<Rightarrow> py_error + wxBitmap option" where
  "image_mask h stream width height RGBdata bitmap =
     (let x_masked = stream_get stream ''/Mask''
      in if x_masked = PyNone then Inr bitmap
         else (case array_of x_masked of
                 Some xs \<Rightarrow> mask_colour_key h xs width height RGBdata bitmap
               | None \<Rightarrow> mask_stream h x_masked bitmap))"

text \<open>The \<open>DrawBitmap\<close> command for a bitmap: \<^verbatim>\<open>(bitmap, 0, 0-height, width, height)\<close>.\<close>

definition DrawBitmap_of :: "wxBitmap \<Rightarrow> pdfobj \<Rightarrow> pdfobj \<Rightarrow> py_error + drawcmd" where
  "DrawBitmap_of bitmap width height =
     bnd (num_of height) (\<lambda>ht. bnd (num_of width) (\<lambda>w. Inr (DrawBitmap bitmap 0 (0 - ht) w ht)))"

text \<open>The image branch of \<^verbatim>\<open>InsertXObject\<close>. Its last statement appends the
  \<open>DrawBitmap\<close> command whatever happened before it and reads \<^verbatim>\<open>bitmap\<close>.\<close>

definition InsertXObject_image ::
  "host \<Rightarrow> (string \<times> pdfobj) list \<Rightarrow> bytes \<Rightarrow> py_error + drawcmd list" where
  "InsertXObject_image h stream stream_data =
     bnd (image_head h stream) (\<lambda>(width, height, x_depth, x_color0).
     bnd (image_indexed x_color0) (\<lambda>(x_indexed, x_palette_size, x_palette, x_color).
     bnd (stream_item h stream ''/Filter'') (\<lambda>filters.
     bnd (stream_item h stream ''/DecodeParms'') (\<lambda>decode_parms.
     bnd (stream_item h stream ''/ImageMask'') (\<lambda>x_stencil.
     bnd (UnpackImage h stream_data filters decode_parms) (\<lambda>data.
     bnd (image_bitmap h width height x_depth x_color x_indexed x_palette_size x_palette
            filters data) (\<lambda>(RGBdata, bitmap0).
     bnd (image_mask h stream width height RGBdata bitmap0) (\<lambda>bitmap1.
     bnd (bound bitmap1) (\<lambda>bitmap.
     bnd (DrawBitmap_of bitmap width height) (\<lambda>c. Inr [c]))))))))))"

text \<open>\<^verbatim>\<open>InlineImage\<close> and \<^verbatim>\<open>AddBitmap\<close>. When \<^verbatim>\<open>FromBuffer\<close> fails, the handler itself
  raises (\<^verbatim>\<open>image_format\<close> is no name of the module), so the \<^verbatim>\<open>return []\<close> after it
  is never reached.\<close>

definition AddBitmap ::
  "host \<Rightarrow> bytes \<Rightarrow> pdfobj \<Rightarrow> pdfobj \<Rightarrow> pdfobj \<Rightarrow> pdfobj \<Rightarrow> py_error + drawcmd" where
  "AddBitmap h data0 width height filters decode_parms =
     bnd (py_contains filters ''/LZWDecode'') (\<lambda>c1.
     bnd (if c1 then LZWDecode h data0 else Inr data0) (\<lambda>data1.
     bnd (contains2 filters ''/A85'' ''/ASCII85Decode'') (\<lambda>c2.
     bnd (if c2 then ASCII85Decode h data1 else Inr data1) (\<lambda>data2.
     bnd (contains2 filters ''/Fl'' ''/FlateDecode'') (\<lambda>c3.
     bnd (if c3 then FlateDecode h data2 decode_parms else Inr data2) (\<lambda>data3.
     bnd (contains2 filters ''/CCF'' ''/CCITTFaxDecode'') (\<lambda>c4.
     bnd (if c4 then CCITTFaxDecode h data3 decode_parms else Inr data3) (\<lambda>data.
     bnd (contains2 filters ''/DCT'' ''/DCTDecode'') (\<lambda>dct.
     bnd (if dct then Bitmap_FromJPEG h data
          else (case FromBuffer_call h width height data of
                  Inl e \<Rightarrow> Inl NameError
                | Inr b \<Rightarrow> Inr b)) (\<lambda>bitmap.
       DrawBitmap_of bitmap width height))))))))))"

definition dict_item :: "(string \<times> 'v) list \<Rightarrow> string \<Rightarrow> py_error + 'v" where
  "dict_item d k = (case map_of d k of None \<Rightarrow> Inl KeyError | Some v \<Rightarrow> Inr v)"

definition InlineImage ::
  "host \<Rightarrow> (string \<times> pdfobj) list \<Rightarrow> bytes \<Rightarrow> py_error + drawcmd list" where
  "InlineImage h settings data =
     bnd (dict_item settings ''/W'') (\<lambda>width.
     bnd (dict_item settings ''/H'') (\<lambda>height.
     bnd (dict_item settings ''/BPC'') (\<lambda>x_depth.
     bnd (dict_item settings ''/F'') (\<lambda>filters.
       (let decode_parms =
              (if map_of settings ''/DecodeParms'' \<noteq> None
               then stream_get settings ''/DecodeParms''
               else stream_get settings ''/DP'')
        in bnd (AddBitmap h data width height filters decode_parms) (\<lambda>c. Inr [c]))))))"

subsection \<open>The branches of ProcessOperators\<close>

text \<open>The local variables of \<^verbatim>\<open>ProcessOperators\<close>. \<^verbatim>\<open>NewClippingPathRequired\<close> and
  \<^verbatim>\<open>NewClippingRule\<close> are unbound (\<open>None\<close>) until a path or clipping operator has
  assigned them.\<close>

record locals =
  drawlist :: "drawcmd list"
  path :: "pathseg list"
  NewClippingPathRequired :: "bool option"
  NewClippingRule :: "string option"

definition locals_init :: locals where
  "locals_init = \<lparr>drawlist = [], path = [], NewClippingPathRequired = None,
                   NewClippingRule = None\<rparr>"

definition floats :: "host \<Rightarrow> pdfobj list \<Rightarrow> py_error + real list" where
  "floats h operand = map_err (py_float h) operand"

definition float_at :: "host \<Rightarrow> pdfobj list \<Rightarrow> nat \<Rightarrow> py_error + real" where
  "float_at h operand i = bnd (item operand i) (py_float h)"

definition do_cm :: "host \<Rightarrow> pdfobj list \<Rightarrow> locals \<Rightarrow> py_error + locals" where
  "do_cm h operand l =
     bnd (floats h operand) (\<lambda>xs.
       if length xs \<noteq> 6 then Inl ValueError
       else Inr (l\<lparr>drawlist := drawlist l @
                   [ConcatTransform (xs ! 0) (- (xs ! 1)) (- (xs ! 2)) (xs ! 3) (xs ! 4)
                      (- (xs ! 5))]\<rparr>))"

definition do_q :: "interp \<Rightarrow> interp" where
  "do_q \<sigma> =
     (case deepcopy (gstate \<sigma>) (heap \<sigma>) of (c, st) \<Rightarrow>
        \<sigma>\<lparr>saved_state := saved_state \<sigma> @ [c], heap := st\<rparr>)"

definition do_Q :: "interp \<Rightarrow> py_error + interp" where
  "do_Q \<sigma> =
     (if saved_state \<sigma> = [] then Inl IndexError
      else Inr (\<sigma>\<lparr>gstate := last (saved_state \<sigma>), saved_state := butlast (saved_state \<sigma>)\<rparr>))"

definition do_gs :: "host \<Rightarrow> pdfobj list \<Rightarrow> pdfState \<Rightarrow> py_error + pdfState" where
  "do_gs h operand g =
     bnd (bound (page_ExtGState h)) (\<lambda>gs_page_resources.
     bnd (item operand 0) (\<lambda>name.
     bnd (dict_get gs_page_resources name) (\<lambda>resource.
       LoadResource h resource g)))"

text \<open>\<^verbatim>\<open>rs, gs, bs = [int(float(n)*255) for n in operand]\<close> and the colour made of them.\<close>

definition rgb_operands :: "host \<Rightarrow> pdfobj list \<Rightarrow> py_error + wxColour" where
  "rgb_operands h operand =
     bnd (map_err (\<lambda>n. bnd (py_float h n) (\<lambda>x. Inr (py_int (x * 255)))) operand) (\<lambda>xs.
       if length xs \<noteq> 3 then Inl ValueError else Inr (Colour3 (xs ! 0) (xs ! 1) (xs ! 2)))"

definition colour_of :: "int \<times> int \<times> int \<Rightarrow> wxColour" where
  "colour_of t = (case t of (r, g, b) \<Rightarrow> Colour3 r g b)"

definition do_d :: "host \<Rightarrow> pdfobj list \<Rightarrow> pdfState \<Rightarrow> py_error + pdfState" where
  "do_d h operand g =
     bnd (item operand 0) (\<lambda>arr.
     bnd (py_iter arr) (\<lambda>ns.
     bnd (map_err (py_int_of h) ns) (\<lambda>dashes.
     bnd (item operand 1) (\<lambda>ph.
     bnd (py_int_of h ph) (\<lambda>phase.
       Inr (g\<lparr>lineDashArray := ArrayObject (map NumberObject dashes),
               lineDashPhase := NumberObject phase\<rparr>))))))"

definition do_Tf ::
  "host \<Rightarrow> (string \<times> string) list \<Rightarrow> pdfobj list \<Rightarrow> pdfState \<Rightarrow> py_error + pdfState" where
  "do_Tf h pdf_fonts operand g =
     bnd (item operand 0) (\<lambda>name.
     bnd (dict_get pdf_fonts name) (\<lambda>fnt.
     bnd (float_at h operand 1) (\<lambda>sz.
       Inr (g\<lparr>font := Some fnt, fontSize := Some sz\<rparr>))))"

text \<open>The operators that only rebind attributes of the state, in the order of the
  source; \<open>None\<close> for any other operator.\<close>

definition state_op ::
  "host \<Rightarrow> (string \<times> string) list \<Rightarrow> string \<Rightarrow> pdfobj list \<Rightarrow> pdfState
     \<Rightarrow> (py_error + pdfState) option" where
  "state_op h pdf_fonts operator operand g =
     (if operator = ''gs'' then Some (do_gs h operand g)
      else if operator = ''CSxxx'' then Some (Inr g)
      else if operator = ''RG'' then
        Some (bnd (rgb_operands h operand) (\<lambda>c. Inr (g\<lparr>strokeRGB := c\<rparr>)))
      else if operator = ''rg'' then
        Some (bnd (rgb_operands h operand) (\<lambda>c. Inr (g\<lparr>fillRGB := c\<rparr>)))
      else if operator = ''K'' then
        Some (bnd (ConvertCMYK operand) (\<lambda>t. Inr (g\<lparr>strokeRGB := colour_of t\<rparr>)))
      else if operator = ''k'' then
        Some (bnd (ConvertCMYK operand) (\<lambda>t. Inr (g\<lparr>fillRGB := colour_of t\<rparr>)))
      else if operator = ''G'' then
        Some (bnd (ConvertGrey operand) (\<lambda>t. Inr (g\<lparr>strokeRGB := colour_of t\<rparr>)))
      else if operator = ''g'' then
        Some (bnd (ConvertGrey operand) (\<lambda>t. Inr (g\<lparr>fillRGB := colour_of t\<rparr>)))
      else if operator = ''w'' then
        Some (bnd (float_at h operand 0) (\<lambda>v. Inr (g\<lparr>lineWidth := max v 1\<rparr>)))
      else if operator = ''J'' then
        Some (bnd (float_at h operand 0) (\<lambda>ix.
              bnd (cap_table ix) (\<lambda>c. Inr (g\<lparr>lineCapStyle := c\<rparr>))))
      else if operator = ''j'' then
        Some (bnd (float_at h operand 0) (\<lambda>ix.
              bnd (join_table ix) (\<lambda>c. Inr (g\<lparr>lineJoinStyle := c\<rparr>))))
      else if operator = ''d'' then Some (do_d h operand g)
      else if operator = ''TL'' then
        Some (bnd (float_at h operand 0) (\<lambda>v. Inr (g\<lparr>leading := Some v\<rparr>)))
      else if operator = ''Tc'' then
        Some (bnd (float_at h operand 0) (\<lambda>v. Inr (g\<lparr>charSpacing := v\<rparr>)))
      else if operator = ''Tw'' then
        Some (bnd (float_at h operand 0) (\<lambda>v. Inr (g\<lparr>wordSpacing := v\<rparr>)))
      else if operator = ''Tz'' then
        Some (bnd (float_at h operand 0) (\<lambda>v. Inr (g\<lparr>horizontalScaling := v / 100\<rparr>)))
      else if operator = ''Ts'' then
        Some (bnd (float_at h operand 0) (\<lambda>v. Inr (g\<lparr>textRise := v\<rparr>)))
      else if operator = ''Tf'' then Some (do_Tf h pdf_fonts operand g)
      else None)"

text \<open>The operators that make new matrix lists or change one in place.
  \<^verbatim>\<open>g.textLineMatrix[4] += x\<close> reads the element before it evaluates \<open>x\<close>.\<close>

definition do_BT :: "interp \<Rightarrow> interp" where
  "do_BT \<sigma> =
     (case new_mat [1, 0, 0, 1, 0, 0] (heap \<sigma>) of (tm, st1) \<Rightarrow>
      case new_mat [1, 0, 0, 1, 0, 0] st1 of (tlm, st2) \<Rightarrow>
        \<sigma>\<lparr>gstate := (gstate \<sigma>)\<lparr>textMatrix := tm, textLineMatrix := tlm\<rparr>, heap := st2\<rparr>)"

definition do_Tm :: "host \<Rightarrow> pdfobj list \<Rightarrow> interp \<Rightarrow> py_error + interp" where
  "do_Tm h operand \<sigma> =
     bnd (floats h operand) (\<lambda>xs.
     bnd (floats h operand) (\<lambda>ys.
       (case new_mat xs (heap \<sigma>) of (tm, st1) \<Rightarrow>
        case new_mat ys st1 of (tlm, st2) \<Rightarrow>
          Inr (\<sigma>\<lparr>gstate := (gstate \<sigma>)\<lparr>textMatrix := tm, textLineMatrix := tlm\<rparr>,
                 heap := st2\<rparr>))))"

text \<open>\<^verbatim>\<open>g.textMatrix = copy.copy(g.textLineMatrix)\<close>.\<close>

definition copy_line_matrix :: "interp \<Rightarrow> interp" where
  "copy_line_matrix \<sigma> =
     (case new_mat (mat_at (heap \<sigma>) (textLineMatrix (gstate \<sigma>))) (heap \<sigma>) of (tm, st) \<Rightarrow>
        \<sigma>\<lparr>gstate := (gstate \<sigma>)\<lparr>textMatrix := tm\<rparr>, heap := st\<rparr>)"

text \<open>\<^verbatim>\<open>g.textLineMatrix[i] += v\<close>, given the element read and the value.\<close>

definition add_line_matrix :: "nat \<Rightarrow> real \<Rightarrow> real \<Rightarrow> interp \<Rightarrow> interp" where
  "add_line_matrix i old v \<sigma> =
     (let a = textLineMatrix (gstate \<sigma>)
      in \<sigma>\<lparr>heap := set_mat a ((mat_at (heap \<sigma>) a)[i := old + v]) (heap \<sigma>)\<rparr>)"

definition line_matrix_at :: "interp \<Rightarrow> nat \<Rightarrow> py_error + real" where
  "line_matrix_at \<sigma> i = item (mat_at (heap \<sigma>) (textLineMatrix (gstate \<sigma>))) i"

definition do_Td :: "host \<Rightarrow> pdfobj list \<Rightarrow> interp \<Rightarrow> py_error + interp" where
  "do_Td h operand \<sigma> =
     bnd (line_matrix_at \<sigma> 4) (\<lambda>t4.
     bnd (float_at h operand 0) (\<lambda>tx.
     bnd (line_matrix_at \<sigma> 5) (\<lambda>t5.
     bnd (float_at h operand 1) (\<lambda>ty.
       Inr (copy_line_matrix (add_line_matrix 5 t5 ty (add_line_matrix 4 t4 tx \<sigma>)))))))"

text \<open>The three statements shared by \<^verbatim>\<open>T*\<close>, \<^verbatim>\<open>'\<close> and \<^verbatim>\<open>"\<close>.\<close>

definition next_line :: "interp \<Rightarrow> py_error + interp" where
  "next_line \<sigma> =
     bnd (line_matrix_at \<sigma> 4) (\<lambda>t4.
     bnd (line_matrix_at \<sigma> 5) (\<lambda>t5.
       (let ld = (case leading (gstate \<sigma>) of Some v \<Rightarrow> v | None \<Rightarrow> 0)
        in Inr (copy_line_matrix (add_line_matrix 5 t5 (- ld) (add_line_matrix 4 t4 0 \<sigma>))))))"

text \<open>\<^verbatim>\<open>operand[i].decode('latin-1')\<close>: only \<^verbatim>\<open>bytes\<close> have \<^verbatim>\<open>decode\<close>; the result is the
  \<^verbatim>\<open>str\<close> with the bytes as code points. \<^verbatim>\<open>Tj\<close> encodes it again, as UTF-8.\<close>

definition decode_latin1 :: "pdfobj \<Rightarrow> py_error + nat list" where
  "decode_latin1 x = (case bytes_of x of Some b \<Rightarrow> Inr b | None \<Rightarrow> Inl AttributeError)"

text \<open>Showing a string and adding its commands to the draw list; the exception of
  \<^verbatim>\<open>DrawTextString\<close> leaves the loop.\<close>

definition show_text :: "host \<Rightarrow> pdfobj \<Rightarrow> locals \<times> interp \<Rightarrow> py_error + locals \<times> interp" where
  "show_text h text s =
     (case s of (l, \<sigma>) \<Rightarrow>
        (case DrawTextString h text \<sigma> of
           (Inl e, \<sigma>') \<Rightarrow> Inl e
         | (Inr dlist, \<sigma>') \<Rightarrow> Inr (l\<lparr>drawlist := drawlist l @ dlist\<rparr>, \<sigma>')))"

definition do_Tj :: "host \<Rightarrow> pdfobj list \<Rightarrow> locals \<times> interp \<Rightarrow> py_error + locals \<times> interp" where
  "do_Tj h operand s =
     bnd (item operand 0) (\<lambda>x.
     bnd (decode_latin1 x) (\<lambda>t.
       show_text h (ByteStringObject (concat (map utf8_latin1 t))) s))"

definition do_quote :: "host \<Rightarrow> pdfobj list \<Rightarrow> locals \<times> interp \<Rightarrow> py_error + locals \<times> interp" where
  "do_quote h operand s =
     (case s of (l, \<sigma>) \<Rightarrow>
        bnd (next_line \<sigma>) (\<lambda>\<sigma>1.
        bnd (item operand 0) (\<lambda>x.
        bnd (decode_latin1 x) (\<lambda>t.
          show_text h (TextStringObject t) (l, \<sigma>1)))))"

definition do_dquote :: "host \<Rightarrow> pdfobj list \<Rightarrow> locals \<times> interp \<Rightarrow> py_error + locals \<times> interp" where
  "do_dquote h operand s =
     (case s of (l, \<sigma>) \<Rightarrow>
        bnd (float_at h operand 0) (\<lambda>ws.
        bnd (float_at h operand 1) (\<lambda>cs.
        bnd (next_line (\<sigma>\<lparr>gstate := (gstate \<sigma>)\<lparr>wordSpacing := ws, charSpacing := cs\<rparr>\<rparr>))
          (\<lambda>\<sigma>1.
        bnd (item operand 2) (\<lambda>x.
        bnd (decode_latin1 x) (\<lambda>t.
          show_text h (TextStringObject t) (l, \<sigma>1)))))))"

text \<open>One element \<^verbatim>\<open>e2\<close> of a \<^verbatim>\<open>TJ\<close> array. A number is passed over. Anything else is
  shown inside \<^verbatim>\<open>try\<close>: when \<^verbatim>\<open>DrawTextString\<close> raises, question marks of the same
  length are shown instead, and when that raises too, a message is printed. The
  element never ends the loop.\<close>

fun is_number :: "pdfobj \<Rightarrow> bool" where
  "is_number (NumberObject i) = True"
| "is_number (FloatObject x) = True"
| "is_number _ = False"

definition TJ_element :: "host \<Rightarrow> pdfobj \<Rightarrow> locals \<times> interp \<Rightarrow> locals \<times> interp" where
  "TJ_element h e2 s =
     (case s of (l, \<sigma>) \<Rightarrow>
      if is_number e2 then (l, \<sigma>)
      else
        (case DrawTextString h e2 \<sigma> of
           (Inr dlist, \<sigma>1) \<Rightarrow> (l\<lparr>drawlist := drawlist l @ dlist\<rparr>, \<sigma>1)
         | (Inl e, \<sigma>1) \<Rightarrow>
             (case py_len e2 of
                Inl e' \<Rightarrow> (l, \<sigma>1)
              | Inr n \<Rightarrow>
                  (case DrawTextString h (TextStringObject (replicate n 63)) \<sigma>1 of
                     (Inr dlist, \<sigma>2) \<Rightarrow> (l\<lparr>drawlist := drawlist l @ dlist\<rparr>, \<sigma>2)
                   | (Inl e', \<sigma>2) \<Rightarrow> (l, \<sigma>2)))))"

fun do_TJ :: "host \<Rightarrow> pdfobj list \<Rightarrow> locals \<times> interp \<Rightarrow> py_error + locals \<times> interp" where
  "do_TJ h [] s = Inr s"
| "do_TJ h (el # els) s =
     bnd (py_iter el) (\<lambda>es. do_TJ h els (fold (TJ_element h) es s))"

text \<open>The path operators, the clipping operators and the painting operators.\<close>

definition do_path_op :: "host \<Rightarrow> string \<Rightarrow> pdfobj list \<Rightarrow> locals \<Rightarrow> py_error + locals" where
  "do_path_op h operator operand l =
     bnd (floats h operand) (\<lambda>xs.
       Inr (l\<lparr>NewClippingPathRequired := Some False, path := path l @ [(xs, operator)]\<rparr>))"

definition do_paint :: "string \<Rightarrow> locals \<times> interp \<Rightarrow> py_error + locals \<times> interp" where
  "do_paint operator s =
     (case s of (l, \<sigma>) \<Rightarrow>
        bnd (DrawPath (gstate \<sigma>) (path l) operator) (\<lambda>(dlist, path').
        bnd (bound (NewClippingPathRequired l)) (\<lambda>required.
          if required then
            bnd (bound (NewClippingRule l)) (\<lambda>rule.
              (case SetClippingPath path' rule \<sigma> of (dlist2, \<sigma>') \<Rightarrow>
                 Inr (l\<lparr>drawlist := drawlist l @ dlist @ dlist2, path := []\<rparr>, \<sigma>')))
          else Inr (l\<lparr>drawlist := drawlist l @ dlist, path := []\<rparr>, \<sigma>))))"

subsection \<open>XObjects\<close>

text \<open>The string a name operand stands for as a dictionary key.\<close>

fun key_of :: "pdfobj \<Rightarrow> string" where
  "key_of (NameObject k) = k"
| "key_of (TextStringObject t) = map char_of t"
| "key_of _ = []"

text \<open>\<^verbatim>\<open>InsertXObject\<close>. \<open>rec\<close> stands for the call of \<^verbatim>\<open>self.ProcessOperators\<close> on the
  operations of a form. Only the image branch has a \<^verbatim>\<open>return dlist\<close>: for a form the
  method caches the form's drawing and returns \<^verbatim>\<open>None\<close>, as it does for any other
  XObject.\<close>

definition InsertXObject ::
  "(op list \<Rightarrow> (string \<times> string) list \<Rightarrow> interp \<Rightarrow> py_error + drawcmd list \<times> interp)
     \<Rightarrow> host \<Rightarrow> pdfobj \<Rightarrow> interp \<Rightarrow> py_error + drawcmd list option \<times> interp" where
  "InsertXObject rec h name \<sigma> =
     bnd (bound (page_XObject h)) (\<lambda>xobject.
     bnd (dict_get xobject name) (\<lambda>stream.
       (case stream of
          Form pdf_fonts matrix form_ops \<Rightarrow>
            if map_of (formdrawings \<sigma>) (key_of name) \<noteq> None then Inr (None, \<sigma>)
            else
              (let oplist = [Op [] (Str ''q''),
                             Op (case matrix of None \<Rightarrow> [] | Some m \<Rightarrow> m) (Str ''cm'')]
                            @ form_ops @ [Op [] (Str ''Q'')]
               in bnd (rec oplist pdf_fonts \<sigma>) (\<lambda>(dl, \<sigma>').
                    Inr (None, \<sigma>'\<lparr>formdrawings := (key_of name, dl) # formdrawings \<sigma>'\<rparr>)))
        | Image d data \<Rightarrow>
            bnd (InsertXObject_image h d data) (\<lambda>dlist. Inr (Some dlist, \<sigma>))
        | OtherXObject \<Rightarrow> Inr (None, \<sigma>))))"

definition do_Do ::
  "(op list \<Rightarrow> (string \<times> string) list \<Rightarrow> interp \<Rightarrow> py_error + drawcmd list \<times> interp)
     \<Rightarrow> host \<Rightarrow> pdfobj list \<Rightarrow> locals \<times> interp \<Rightarrow> py_error + locals \<times> interp" where
  "do_Do rec h operand s =
     (case s of (l, \<sigma>) \<Rightarrow>
        bnd (item operand 0) (\<lambda>name.
        bnd (InsertXObject rec h name \<sigma>) (\<lambda>(dlist, \<sigma>').
          (case dlist of
             None \<Rightarrow> Inr (l, \<sigma>')
           | Some dl \<Rightarrow> Inr (l\<lparr>drawlist := drawlist l @ dl\<rparr>, \<sigma>')))))"

definition report_unimplemented :: "pyname \<Rightarrow> interp \<Rightarrow> interp" where
  "report_unimplemented operator \<sigma> =
     (if operator \<in> set (unimplemented \<sigma>) then \<sigma>
      else \<sigma>\<lparr>unimplemented := unimplemented \<sigma> @ [operator]\<rparr>)"

subsection \<open>ProcessOperators\<close>

text \<open>One round of the loop \<^verbatim>\<open>for operand, operator in opslist\<close> for an operator that
  is a \<^verbatim>\<open>str\<close>. The branches stand in the order of the source, except that those
  collected in \<open>state_op\<close> are tried together after \<^verbatim>\<open>Q\<close>; no operator belongs to two
  branches, so the order decides nothing. \<^verbatim>\<open>cm\<close> with an empty operand falls through
  to the last branch.\<close>

definition step_str ::
  "(op list \<Rightarrow> (string \<times> string) list \<Rightarrow> interp \<Rightarrow> py_error + drawcmd list \<times> interp)
     \<Rightarrow> host \<Rightarrow> (string \<times> string) list \<Rightarrow> pdfobj list \<Rightarrow> string \<Rightarrow> locals \<times> interp
     \<Rightarrow> py_error + locals \<times> interp" where
  "step_str rec h pdf_fonts operand operator s =
     (case s of (l, \<sigma>) \<Rightarrow>
      if operator = ''cm'' \<and> operand \<noteq> [] then bnd (do_cm h operand l) (\<lambda>l'. Inr (l', \<sigma>))
      else if operator = ''q'' then Inr (l\<lparr>drawlist := drawlist l @ [PushState]\<rparr>, do_q \<sigma>)
      else if operator = ''Q'' then
        bnd (do_Q \<sigma>) (\<lambda>\<sigma>'. Inr (l\<lparr>drawlist := drawlist l @ [PopState]\<rparr>, \<sigma>'))
      else
        (case state_op h pdf_fonts operator operand (gstate \<sigma>) of
           Some r \<Rightarrow> bnd r (\<lambda>g'. Inr (l, \<sigma>\<lparr>gstate := g'\<rparr>))
         | None \<Rightarrow>
             if operator \<in> set [''m'', ''c'', ''l'', ''re'', ''v'', ''y'', ''h''] then
               bnd (do_path_op h operator operand l) (\<lambda>l'. Inr (l', \<sigma>))
             else if operator \<in> set [''W'', ''W*''] then
               Inr (l\<lparr>NewClippingPathRequired := Some True,
                      NewClippingRule := Some operator\<rparr>, \<sigma>)
             else if operator \<in> set [''b'', ''B'', ''b*'', ''B*'', ''f'', ''F'', ''f*'',
                                      ''s'', ''S'', ''n''] then
               do_paint operator s
             else if operator = ''BT'' then Inr (l, do_BT \<sigma>)
             else if operator = ''ET'' then Inr s
             else if operator = ''Tm'' then bnd (do_Tm h operand \<sigma>) (\<lambda>\<sigma>'. Inr (l, \<sigma>'))
             else if operator = ''Td'' then bnd (do_Td h operand \<sigma>) (\<lambda>\<sigma>'. Inr (l, \<sigma>'))
             else if operator = ''T*'' then bnd (next_line \<sigma>) (\<lambda>\<sigma>'. Inr (l, \<sigma>'))
             else if operator = ''Tj'' then do_Tj h operand s
             else if operator = [CHR 0x27] then do_quote h operand s
             else if operator = [CHR 0x22] then do_dquote h operand s
             else if operator = ''TJ'' then do_TJ h operand s
             else if operator = ''Do'' then do_Do rec h operand s
             else if operator = ''INLINE IMAGE'' then Inl AttributeError
             else Inr (l, report_unimplemented (Str operator) \<sigma>)))"

text \<open>An operator that is \<^verbatim>\<open>bytes\<close> equals none of the strings it is compared with and
  is reported as not implemented. An inline image has the dictionary as its operand;
  a list in its place has no \<^verbatim>\<open>get\<close>.\<close>

definition step ::
  "(op list \<Rightarrow> (string \<times> string) list \<Rightarrow> interp \<Rightarrow> py_error + drawcmd list \<times> interp)
     \<Rightarrow> host \<Rightarrow> (string \<times> string) list \<Rightarrow> op \<Rightarrow> locals \<times> interp
     \<Rightarrow> py_error + locals \<times> interp" where
  "step rec h pdf_fonts opn s =
     (case opn of
        INLINE_IMAGE settings data \<Rightarrow>
          (case s of (l, \<sigma>) \<Rightarrow>
             bnd (InlineImage h settings data) (\<lambda>dlist.
               Inr (l\<lparr>drawlist := drawlist l @ dlist\<rparr>, \<sigma>)))
      | Op operand operator \<Rightarrow>
          (case operator of
             Bytes b \<Rightarrow> (case s of (l, \<sigma>) \<Rightarrow> Inr (l, report_unimplemented (Bytes b) \<sigma>))
           | Str name \<Rightarrow> step_str rec h pdf_fonts operand name s))"

fun run_ops ::
  "(op list \<Rightarrow> (string \<times> string) list \<Rightarrow> interp \<Rightarrow> py_error + drawcmd list \<times> interp)
     \<Rightarrow> host \<Rightarrow> (string \<times> string) list \<Rightarrow> op list \<Rightarrow> locals \<times> interp
     \<Rightarrow> py_error + locals \<times> interp" where
  "run_ops rec h pdf_fonts [] s = Inr s"
| "run_ops rec h pdf_fonts (opn # ops) s =
     bnd (step rec h pdf_fonts opn s) (run_ops rec h pdf_fonts ops)"

text \<open>\<^verbatim>\<open>ProcessOperators\<close>: the loop, then the bitmap transform fix on the finished
  draw list. A form calls it again from \<^verbatim>\<open>InsertXObject\<close>; the first argument bounds
  the depth of these calls, and Python's own bound on it raises \<^verbatim>\<open>RecursionError\<close>.\<close>

primrec ProcessOperators ::
  "nat \<Rightarrow> host \<Rightarrow> op list \<Rightarrow> (string \<times> string) list \<Rightarrow> interp
     \<Rightarrow> py_error + drawcmd list \<times> interp" where
  "ProcessOperators 0 h = (\<lambda>opslist pdf_fonts \<sigma>. Inl RecursionError)"
| "ProcessOperators (Suc n) h =
     (\<lambda>opslist pdf_fonts \<sigma>.
        bnd (run_ops (ProcessOperators n h) h pdf_fonts opslist (locals_init, \<sigma>)) (\<lambda>(l, \<sigma>').
        bnd (fix_bitmap_transform 0 (drawlist l)) (\<lambda>dl. Inr (dl, \<sigma>'))))"

text \<open>The loop of \<^verbatim>\<open>ProcessOperators\<close> alone, at the same depth: the state in the middle
  of a stream is the result of the loop on the operations before it.\<close>

definition run ::
  "nat \<Rightarrow> host \<Rightarrow> (string \<times> string) list \<Rightarrow> op list \<Rightarrow> locals \<times> interp
     \<Rightarrow> py_error + locals \<times> interp" where
  "run n h pdf_fonts ops s = run_ops (ProcessOperators n h) h pdf_fonts ops s"

text \<open>The text a draw command shows, for the statements about text.\<close>

fun shown_text :: "drawcmd \<Rightarrow> pdfobj option" where
  "shown_text (DrawText t x y) = Some t"
| "shown_text _ = None"

text \<open>How far a shown item moves the text position: its measured width and the word
  spacing.\<close>

definition advance :: "host \<Rightarrow> bool \<Rightarrow> pdfState \<Rightarrow> wxFont \<Rightarrow> pdfobj \<Rightarrow> real" where
  "advance h known g f e =
     (case text_extent h known g e f of
        Inr (width, ht, descend) \<Rightarrow> width + wordSpacing g
      | Inl err \<Rightarrow> 0)"

text \<open>The kind of a draw command, for the statements about the transform fix.\<close>

fun is_ConcatTransform :: "drawcmd \<Rightarrow> bool" where
  "is_ConcatTransform (ConcatTransform a b c d e f) = True"
| "is_ConcatTransform _ = False"

fun is_DrawBitmap :: "drawcmd \<Rightarrow> bool" where
  "is_DrawBitmap (DrawBitmap bm x y w h) = True"
| "is_DrawBitmap _ = False"

subsection \<open>A host and a page to run on\<close>

text \<open>A host for the concrete runs below: text is six units wide per character, ten
  high with a descent of two; the filters leave the data as they are;
  \<^verbatim>\<open>FromBuffer\<close> wants three bytes per pixel. The page has a CMYK image, an RGB image,
  a form and an extended graphics state among its resources.\<close>

definition demo_host :: host where
  "demo_host =
     \<lparr>float_of_text = (\<lambda>x. None), int_of_text = (\<lambda>x. None),
      font_scale_metrics = 1, font_scale_size = 1,
      GetFullTextExtent =
        (\<lambda>t f. case py_len t of Inl e \<Rightarrow> Inl TypeError | Inr n \<Rightarrow> Inr (6 * real n, 10, 2, 0)),
      have_rlwidth = False,
      stringWidth = (\<lambda>t f sz. Inl KeyError),
      LZWDecode = Inr, ASCII85Decode = Inr,
      FlateDecode = (\<lambda>d p. Inr d), CCITTFaxDecode = (\<lambda>d p. Inr d),
      Bitmap_FromBuffer =
        (\<lambda>w ht d. if int (length d) = w * ht * 3 then Inr (FromBuffer w ht d)
                  else Inl ValueError),
      Bitmap_FromJPEG = (\<lambda>d. Inr (FromJPEG d)),
      page_XObject = Some
        [(''/Im1'', Image [(''/Width'', NumberObject 1), (''/Height'', NumberObject 1),
                           (''/BitsPerComponent'', NumberObject 8),
                           (''/ColorSpace'', NameObject ''/DeviceCMYK''),
                           (''/Filter'', ArrayObject []), (''/DecodeParms'', NullObject),
                           (''/ImageMask'', BooleanObject False)]
                    [0, 0, 0, 255]),
         (''/Im2'', Image [(''/Width'', NumberObject 1), (''/Height'', NumberObject 1),
                           (''/BitsPerComponent'', NumberObject 8),
                           (''/ColorSpace'', NameObject ''/DeviceRGB''),
                           (''/Filter'', ArrayObject []), (''/DecodeParms'', NullObject),
                           (''/ImageMask'', BooleanObject False)]
                    [9, 8, 7]),
         (''/Fm1'', Form [] (Some [NumberObject 1, NumberObject 0, NumberObject 0,
                                   NumberObject 1, NumberObject 0, NumberObject 0])
                    [Op [] (Str ''q''), Op [NumberObject 4] (Str ''w''), Op [] (Str ''Q''),
                     Op [NumberObject 1, NumberObject 0, NumberObject 0] (Str ''rg'')])],
      page_ExtGState = Some [(''/GS1'', [(''/CA'', FloatObject (1 / 2)), (''/LW'', NumberObject 3)])],
      missing_is_None = False\<rparr>"

text \<open>A processor at the start of a page, before any operator.\<close>

definition demo_interp :: interp where
  "demo_interp =
     DrawFile_page
       \<lparr>gstate = fst (pdfState_init \<lparr>mats = [], clips = []\<rparr>), saved_state = [],
        heap = \<lparr>mats = [], clips = []\<rparr>, knownfont = False, unimplemented = [],
        formdrawings = [], missing_fonts = []\<rparr>"

section \<open>Verified properties\<close>

subsection \<open>Sequencing\<close>

lemma bnd_simps [simp]: "bnd (Inl e) f = Inl e" "bnd (Inr x) f = f x"
  by (simp_all add: bnd_def)

lemma bnd_eq_Inr: "bnd r f = Inr y \<longleftrightarrow> (\<exists>x. r = Inr x \<and> f x = Inr y)"
  by (cases r) simp_all

lemma sbnd_lift [simp]:
  "sbnd (lift (Inl e)) f s = (Inl e, s)" "sbnd (lift (Inr x)) f s = f x s"
  by (simp_all add: sbnd_def lift_def)

subsection \<open>CMYK colours\<close>

lemma py_round_0: "py_round 0 = 0"
  by (simp add: py_round_def)

lemma py_round_255: "py_round 255 = 255"
  by (simp add: py_round_def)

lemma py_round_bounds:
  assumes "0 \<le> x" "x \<le> 255"
  shows "0 \<le> py_round x \<and> py_round x \<le> 255"
proof -
  have f0: "0 \<le> \<lfloor>x\<rfloor>" using assms by simp
  have f1: "\<lfloor>x\<rfloor> \<le> 255" using assms by (simp add: floor_le_iff)
  show ?thesis
  proof (cases "\<lfloor>x\<rfloor> = 255")
    case True
    then have "x = 255" using assms by linarith
    then show ?thesis by (simp add: py_round_def)
  next
    case False
    then have "\<lfloor>x\<rfloor> + 1 \<le> 255" using f1 by linarith
    then show ?thesis using f0 f1 by (auto simp: py_round_def Let_def)
  qed
qed

lemma unit_product_scaled:
  fixes c k :: real
  assumes "0 \<le> c" "c \<le> 1" "0 \<le> k" "k \<le> 1"
  shows "0 \<le> (1 - c) * (1 - k) * 255 \<and> (1 - c) * (1 - k) * 255 \<le> 255"
proof -
  have a: "0 \<le> 1 - c" "1 - c \<le> 1" "0 \<le> 1 - k" "1 - k \<le> 1" using assms by auto
  then have "0 \<le> (1 - c) * (1 - k)" by simp
  moreover have "(1 - c) * (1 - k) \<le> 1 * 1" using a by (intro mult_mono) auto
  ultimately show ?thesis by simp
qed

text \<open>
  C7. For operands C, M, Y, K in [0,1] (numbers of either kind), the operator \<^verbatim>\<open>K\<close>
  stores as the stroke colour, and \<^verbatim>\<open>k\<close> as the fill colour, the opaque colour with
  R = round((1-C)(1-K)255), G = round((1-M)(1-K)255), B = round((1-Y)(1-K)255), each
  between 0 and 255; CMYK (0,0,0,1) gives (0,0,0) and CMYK (0,0,0,0) gives
  (255,255,255). Operand arithmetic is taken as exact.
\<close>

theorem K_k_store_converted_colour:
  assumes "num_of oc = Inr c" "num_of om = Inr m" "num_of oy = Inr y" "num_of ok = Inr k"
    and "0 \<le> c" "c \<le> 1" "0 \<le> m" "m \<le> 1" "0 \<le> y" "y \<le> 1" "0 \<le> k" "k \<le> 1"
  defines "R \<equiv> py_round ((1 - c) * (1 - k) * 255)"
    and "G \<equiv> py_round ((1 - m) * (1 - k) * 255)"
    and "B \<equiv> py_round ((1 - y) * (1 - k) * 255)"
  shows "step rec h pdf_fonts (Op [oc, om, oy, ok] (Str ''K'')) (l, \<sigma>)
           = Inr (l, \<sigma>\<lparr>gstate := (gstate \<sigma>)\<lparr>strokeRGB := Colour R G B 255\<rparr>\<rparr>)
       \<and> step rec h pdf_fonts (Op [oc, om, oy, ok] (Str ''k'')) (l, \<sigma>)
           = Inr (l, \<sigma>\<lparr>gstate := (gstate \<sigma>)\<lparr>fillRGB := Colour R G B 255\<rparr>\<rparr>)
       \<and> 0 \<le> R \<and> R \<le> 255 \<and> 0 \<le> G \<and> G \<le> 255 \<and> 0 \<le> B \<and> B \<le> 255
       \<and> ConvertCMYK [NumberObject 0, NumberObject 0, NumberObject 0, NumberObject 1]
            = Inr (0, 0, 0)
       \<and> ConvertCMYK [NumberObject 0, NumberObject 0, NumberObject 0, NumberObject 0]
            = Inr (255, 255, 255)"
proof -
  have conv: "ConvertCMYK [oc, om, oy, ok] = Inr (R, G, B)"
    using assms(1-4) by (simp add: R_def G_def B_def)
  have s1: "step rec h pdf_fonts (Op [oc, om, oy, ok] (Str ''K'')) (l, \<sigma>)
           = Inr (l, \<sigma>\<lparr>gstate := (gstate \<sigma>)\<lparr>strokeRGB := Colour R G B 255\<rparr>\<rparr>)"
    by (simp add: step_def step_str_def state_op_def conv colour_of_def Colour3_def
          del: ConvertCMYK.simps)
  have s2: "step rec h pdf_fonts (Op [oc, om, oy, ok] (Str ''k'')) (l, \<sigma>)
           = Inr (l, \<sigma>\<lparr>gstate := (gstate \<sigma>)\<lparr>fillRGB := Colour R G B 255\<rparr>\<rparr>)"
    by (simp add: step_def step_str_def state_op_def conv colour_of_def Colour3_def
          del: ConvertCMYK.simps)
  have bR: "0 \<le> R \<and> R \<le> 255" unfolding R_def
    using unit_product_scaled [OF assms(5,6,11,12)] py_round_bounds by blast
  have bG: "0 \<le> G \<and> G \<le> 255" unfolding G_def
    using unit_product_scaled [OF assms(7,8,11,12)] py_round_bounds by blast
  have bB: "0 \<le> B \<and> B \<le> 255" unfolding B_def
    using unit_product_scaled [OF assms(9,10,11,12)] py_round_bounds by blast
  have e1: "ConvertCMYK [NumberObject 0, NumberObject 0, NumberObject 0, NumberObject 1]
            = Inr (0, 0, 0)"
    by (simp add: py_round_0)
  have e2: "ConvertCMYK [NumberObject 0, NumberObject 0, NumberObject 0, NumberObject 0]
            = Inr (255, 255, 255)"
    by (simp add: py_round_255)
  show ?thesis using s1 s2 bR bG bB e1 e2 by simp
qed

theorem K_k_store_converted_colour_witness:
  "step (ProcessOperators 0 demo_host) demo_host []
     (Op [NumberObject 0, FloatObject (1 / 2), NumberObject 1, FloatObject (1 / 5)] (Str ''K''))
     (locals_init, demo_interp)
   = Inr (locals_init,
          demo_interp\<lparr>gstate := (gstate demo_interp)\<lparr>strokeRGB := Colour 204 102 0 255\<rparr>\<rparr>)"
proof -
  have r: "py_round ((1 - 0) * (1 - 1 / 5) * 255) = 204"
    "py_round ((1 - 1 / 2) * (1 - 1 / 5) * 255) = 102"
    "py_round ((1 - 1) * (1 - 1 / 5) * 255) = 0"
    by (simp_all add: py_round_def)
  show ?thesis
    using K_k_store_converted_colour [of "NumberObject 0" 0 "FloatObject (1 / 2)" "1 / 2"
        "NumberObject 1" 1 "FloatObject (1 / 5)" "1 / 5" "ProcessOperators 0 demo_host"
        demo_host "[]" locals_init demo_interp] r
    by simp
qed

subsection \<open>De-indexing\<close>

text \<open>
  C5. At depth 2 the four samples of a byte are not unpacked: the byte 228 = 11 10 01 00
  holds the samples 3, 2, 1, 0, and the code looks up the palette entry of the two low
  bits four times. (At depth 4 the low half of a byte comes out before the high half;
  depths 1 and 8 are as the claim says.)
\<close>

theorem DeindexImage_depth2_repeats_low_bits:
  "DeindexImage 4 1 [228] (NumberObject 2) (NumberObject 12)
     [0, 0, 0, 1, 1, 1, 2, 2, 2, 3, 3, 3] 3
   = Inr [0, 0, 0, 0, 0, 0, 0, 0, 0, 0, 0, 0]"
  by code_simp

lemma DeindexImage_depth4_low_half_first:
  "DeindexImage 2 1 [18] (NumberObject 4) (NumberObject 48)
     (concat (map (\<lambda>x. [x, x, x]) [0..<16])) 3
   = Inr [2, 2, 2, 1, 1, 1]"
  by code_simp

lemma DeindexImage_depth8_identity_palette:
  "DeindexImage 3 1 [0, 1, 2] (NumberObject 8) (NumberObject 9)
     [0, 0, 0, 1, 1, 1, 2, 2, 2] 3
   = Inr [0, 0, 0, 1, 1, 1, 2, 2, 2]"
  by code_simp

lemma DeindexImage_depth1_high_bit_first:
  "DeindexImage 8 1 [177] (NumberObject 1) (NumberObject 6) [0, 0, 0, 255, 255, 255] 3
   = Inr [255, 255, 255, 0, 0, 0, 255, 255, 255, 255, 255, 255,
          0, 0, 0, 0, 0, 0, 0, 0, 0, 255, 255, 255]"
  by code_simp

subsection \<open>Colour keys\<close>

lemma slice_drop_take: "slice xs lo hi = drop lo (take hi xs)"
  by (simp add: slice_def drop_take)

lemma length_slice3: "p + 3 \<le> length xs \<Longrightarrow> length (slice xs p (p + 3)) = 3"
  by (simp add: slice_def)

lemma BytesIO_write_inside:
  assumes "pos io + length bs \<le> length (buf io)"
  shows "length (buf (BytesIO_write bs io)) = length (buf io)"
    and "pos (BytesIO_write bs io) = pos io + length bs"
    and "take (pos io + length bs) (buf (BytesIO_write bs io)) = take (pos io) (buf io) @ bs"
  using assms by (simp_all add: BytesIO_write_def)

lemma FixColour_loop_correct:
  assumes D: "length D = 3 * m" and key: "length key = 3"
  shows "i \<le> m \<Longrightarrow> pos io = 3 * i \<Longrightarrow> length (buf io) = 3 * m \<Longrightarrow>
    \<exists>io' n'. FixColour_loop D (R1, R9, G1, G9, B1, B9) key (3 * i) (io, n) = Inr (io', n')
      \<and> length (buf io') = 3 * m
      \<and> take (3 * i) (buf io') = take (3 * i) (buf io)
      \<and> (\<forall>j. i \<le> j \<and> j < m \<longrightarrow>
            slice (buf io') (3 * j) (3 * j + 3) =
              (if R1 \<le> D ! (3 * j) \<and> D ! (3 * j) \<le> R9 \<and> G1 \<le> D ! (3 * j + 1)
                  \<and> D ! (3 * j + 1) \<le> G9 \<and> B1 \<le> D ! (3 * j + 2) \<and> D ! (3 * j + 2) \<le> B9
               then key else slice D (3 * j) (3 * j + 3)))"
proof (induction "m - i" arbitrary: i io n)
  case 0
  then have "i = m" by simp
  then show ?case using D "0.prems" by (auto simp: FixColour_loop.simps [of D _ key "3 * m"])
next
  case (Suc d)
  then have im: "i < m" by simp
  let ?hit = "R1 \<le> D ! (3 * i) \<and> D ! (3 * i) \<le> R9 \<and> G1 \<le> D ! (3 * i + 1)
                  \<and> D ! (3 * i + 1) \<le> G9 \<and> B1 \<le> D ! (3 * i + 2) \<and> D ! (3 * i + 2) \<le> B9"
  let ?chunk = "if ?hit then key else slice D (3 * i) (3 * i + 3)"
  let ?io1 = "BytesIO_write ?chunk io"
  let ?n1 = "if ?hit then n + 1 else n"
  have lc: "length ?chunk = 3" using key D im by (simp add: length_slice3)
  have fits: "pos io + length ?chunk \<le> length (buf io)"
    using Suc.prems im lc by simp
  have unfold: "FixColour_loop D (R1, R9, G1, G9, B1, B9) key (3 * i) (io, n)
      = FixColour_loop D (R1, R9, G1, G9, B1, B9) key (3 * Suc i) (?io1, ?n1)"
    using D im by (subst FixColour_loop.simps) (simp add: Let_def add.commute)
  have p1: "pos ?io1 = 3 * Suc i" using BytesIO_write_inside(2) [OF fits] Suc.prems lc by simp
  have l1: "length (buf ?io1) = 3 * m" using BytesIO_write_inside(1) [OF fits] Suc.prems by simp
  have t1: "take (3 * Suc i) (buf ?io1) = take (3 * i) (buf io) @ ?chunk"
    using BytesIO_write_inside(3) [OF fits] Suc.prems lc by (simp add: add.commute)
  have "d = m - Suc i" using Suc.hyps(2) by simp
  from Suc.hyps(1) [OF this _ p1 l1, of ?n1] im
  obtain io' n' where
    r: "FixColour_loop D (R1, R9, G1, G9, B1, B9) key (3 * Suc i) (?io1, ?n1) = Inr (io', n')"
    and l: "length (buf io') = 3 * m"
    and t: "take (3 * Suc i) (buf io') = take (3 * Suc i) (buf ?io1)"
    and rest: "\<forall>j. Suc i \<le> j \<and> j < m \<longrightarrow>
            slice (buf io') (3 * j) (3 * j + 3) =
              (if R1 \<le> D ! (3 * j) \<and> D ! (3 * j) \<le> R9 \<and> G1 \<le> D ! (3 * j + 1)
                  \<and> D ! (3 * j + 1) \<le> G9 \<and> B1 \<le> D ! (3 * j + 2) \<and> D ! (3 * j + 2) \<le> B9
               then key else slice D (3 * j) (3 * j + 3))"
    by auto
  have tk: "take (3 * Suc i) (buf io') = take (3 * i) (buf io) @ ?chunk" using t t1 by simp
  have len_io: "3 * i \<le> length (buf io)" using Suc.prems im by simp
  have pre: "take (3 * i) (buf io') = take (3 * i) (buf io)"
  proof -
    have "take (3 * i) (buf io') = take (3 * i) (take (3 * Suc i) (buf io'))" by simp
    also have "\<dots> = take (3 * i) (take (3 * i) (buf io) @ ?chunk)" using tk by simp
    also have "\<dots> = take (3 * i) (buf io)" using len_io by simp
    finally show ?thesis .
  qed
  have here: "slice (buf io') (3 * i) (3 * i + 3) = ?chunk"
  proof -
    have "slice (buf io') (3 * i) (3 * i + 3) = drop (3 * i) (take (3 * Suc i) (buf io'))"
      by (simp add: slice_drop_take add.commute)
    also have "\<dots> = drop (3 * i) (take (3 * i) (buf io) @ ?chunk)" using tk by simp
    also have "\<dots> = ?chunk" using len_io by simp
    finally show ?thesis .
  qed
  have all: "\<forall>j. i \<le> j \<and> j < m \<longrightarrow>
            slice (buf io') (3 * j) (3 * j + 3) =
              (if R1 \<le> D ! (3 * j) \<and> D ! (3 * j) \<le> R9 \<and> G1 \<le> D ! (3 * j + 1)
                  \<and> D ! (3 * j + 1) \<le> G9 \<and> B1 \<le> D ! (3 * j + 2) \<and> D ! (3 * j + 2) \<le> B9
               then key else slice D (3 * j) (3 * j + 3))"
  proof (intro allI impI)
    fix j assume j: "i \<le> j \<and> j < m"
    show "slice (buf io') (3 * j) (3 * j + 3) =
              (if R1 \<le> D ! (3 * j) \<and> D ! (3 * j) \<le> R9 \<and> G1 \<le> D ! (3 * j + 1)
                  \<and> D ! (3 * j + 1) \<le> G9 \<and> B1 \<le> D ! (3 * j + 2) \<and> D ! (3 * j + 2) \<le> B9
               then key else slice D (3 * j) (3 * j + 3))"
    proof (cases "j = i")
      case True
      then show ?thesis using here by simp
    next
      case False
      then have "Suc i \<le> j \<and> j < m" using j by simp
      then show ?thesis using rest by blast
    qed
  qed
  show ?case using unfold r l pre all by simp
qed

text \<open>
  C9. For an RGB raster of 3m bytes, a six-byte range and a three-byte key,
  \<^verbatim>\<open>FixColour\<close> returns a raster of the same length in which every pixel whose three
  components lie in their inclusive ranges is the key, and every other pixel is the
  pixel of the input.
\<close>

theorem FixColour_replaces_exactly_the_keyed_pixels:
  assumes "length RGBdata = 3 * m" and "length colour_key_fix = 3"
  shows "\<exists>d2. FixColour RGBdata [R1, R9, G1, G9, B1, B9] colour_key_fix = Inr d2
      \<and> length d2 = length RGBdata
      \<and> (\<forall>j<m. slice d2 (3 * j) (3 * j + 3) =
            (if R1 \<le> RGBdata ! (3 * j) \<and> RGBdata ! (3 * j) \<le> R9
                \<and> G1 \<le> RGBdata ! (3 * j + 1) \<and> RGBdata ! (3 * j + 1) \<le> G9
                \<and> B1 \<le> RGBdata ! (3 * j + 2) \<and> RGBdata ! (3 * j + 2) \<le> B9
             then colour_key_fix else slice RGBdata (3 * j) (3 * j + 3)))"
proof -
  let ?io = "BytesIO_new (replicate (length RGBdata) 0)"
  have "pos ?io = 3 * 0" "length (buf ?io) = 3 * m" using assms by (simp_all add: BytesIO_new_def)
  from FixColour_loop_correct [OF assms, of 0 ?io R1 R9 G1 G9 B1 B9 0, OF _ this]
  obtain io' n' where
    r: "FixColour_loop RGBdata (R1, R9, G1, G9, B1, B9) colour_key_fix 0 (?io, 0) = Inr (io', n')"
    and l: "length (buf io') = 3 * m"
    and a: "\<forall>j. 0 \<le> j \<and> j < m \<longrightarrow>
            slice (buf io') (3 * j) (3 * j + 3) =
              (if R1 \<le> RGBdata ! (3 * j) \<and> RGBdata ! (3 * j) \<le> R9 \<and> G1 \<le> RGBdata ! (3 * j + 1)
                  \<and> RGBdata ! (3 * j + 1) \<le> G9 \<and> B1 \<le> RGBdata ! (3 * j + 2) \<and> RGBdata ! (3 * j + 2) \<le> B9
               then colour_key_fix else slice RGBdata (3 * j) (3 * j + 3))"
    by auto
  show ?thesis using r l a assms by (simp add: getvalue_def)
qed

theorem FixColour_replaces_exactly_the_keyed_pixels_witness:
  "\<exists>d2. FixColour [252, 2, 1, 100, 100, 100] [250, 255, 0, 5, 0, 5] [255, 5, 5] = Inr d2
     \<and> length d2 = 6 \<and> slice d2 0 3 = [255, 5, 5] \<and> slice d2 3 6 = [100, 100, 100]"
proof -
  have "length [252, 2, 1, 100, 100, 100::nat] = 3 * 2" "length [255, 5, 5::nat] = 3" by simp_all
  from FixColour_replaces_exactly_the_keyed_pixels [OF this, of 250 255 0 5 0 5]
  obtain d2 where r: "FixColour [252, 2, 1, 100, 100, 100] [250, 255, 0, 5, 0, 5] [255, 5, 5] = Inr d2"
    and l: "length d2 = 6"
    and a: "\<forall>j<2. slice d2 (3 * j) (3 * j + 3) =
            (if 250 \<le> [252, 2, 1, 100, 100, 100::nat] ! (3 * j) \<and> [252, 2, 1, 100, 100, 100::nat] ! (3 * j) \<le> 255
                \<and> 0 \<le> [252, 2, 1, 100, 100, 100::nat] ! (3 * j + 1) \<and> [252, 2, 1, 100, 100, 100::nat] ! (3 * j + 1) \<le> 5
                \<and> 0 \<le> [252, 2, 1, 100, 100, 100::nat] ! (3 * j + 2) \<and> [252, 2, 1, 100, 100, 100::nat] ! (3 * j + 2) \<le> 5
             then [255, 5, 5] else slice [252, 2, 1, 100, 100, 100] (3 * j) (3 * j + 3))"
    by auto
  have "slice d2 0 3 = [255, 5, 5]" using a [rule_format, of 0] by simp
  moreover have "slice d2 3 6 = [100, 100, 100]" using a [rule_format, of 1] by (simp add: slice_def)
  ultimately show ?thesis using r l by simp
qed

subsection \<open>The bitmap transform fix\<close>

lemma fix_pair_None_iff:
  "fix_pair c1 c2 = None \<longleftrightarrow> \<not> (is_ConcatTransform c1 \<and> is_DrawBitmap c2)"
  by (cases c1; cases c2) (simp_all add: fix_pair_def Let_def)

lemma fix_pair_Inr_kinds:
  "fix_pair c1 c2 = Some (Inr (a, b)) \<Longrightarrow> is_ConcatTransform a \<and> is_DrawBitmap b
     \<and> is_ConcatTransform c1 \<and> is_DrawBitmap c2"
  by (cases c1; cases c2) (auto simp: fix_pair_def Let_def split: if_splits)

lemma not_both: "is_DrawBitmap c \<Longrightarrow> \<not> is_ConcatTransform c"
  by (cases c) simp_all

lemma fix_length:
  "fix_bitmap_transform k dl = Inr dl' \<Longrightarrow> length dl' = length dl"
proof (induction k dl rule: fix_bitmap_transform.induct)
  case (1 k drawlist)
  show ?case
  proof (cases "k + 1 < length drawlist")
    case False
    then show ?thesis using "1.prems" by (simp add: fix_bitmap_transform.simps [of k drawlist])
  next
    case True
    show ?thesis
    proof (cases "fix_pair (drawlist ! k) (drawlist ! (k + 1))")
      case None
      then show ?thesis using True "1.prems" "1.IH"(1)
        by (simp add: fix_bitmap_transform.simps [of k drawlist])
    next
      case (Some r)
      show ?thesis
      proof (cases r)
        case (Inl e)
        then show ?thesis using True Some "1.prems"
          by (simp add: fix_bitmap_transform.simps [of k drawlist])
      next
        case (Inr p)
        obtain c1 c2 where p: "p = (c1, c2)" by (cases p)
        have "fix_bitmap_transform (k + 1) (drawlist[k := c1, k + 1 := c2]) = Inr dl'"
          using True Some Inr p "1.prems" by (simp add: fix_bitmap_transform.simps [of k drawlist])
        from "1.IH"(2) [OF True Some Inr p [symmetric] this] show ?thesis by simp
      qed
    qed
  qed
qed

lemma fix_prefix:
  "fix_bitmap_transform k dl = Inr dl' \<Longrightarrow> j < k \<Longrightarrow> dl' ! j = dl ! j"
proof (induction k dl rule: fix_bitmap_transform.induct)
  case (1 k drawlist)
  show ?case
  proof (cases "k + 1 < length drawlist")
    case False
    then show ?thesis using "1.prems" by (simp add: fix_bitmap_transform.simps [of k drawlist])
  next
    case True
    show ?thesis
    proof (cases "fix_pair (drawlist ! k) (drawlist ! (k + 1))")
      case None
      then show ?thesis using True "1.prems" "1.IH"(1)
        by (simp add: fix_bitmap_transform.simps [of k drawlist])
    next
      case (Some r)
      show ?thesis
      proof (cases r)
        case (Inl e)
        then show ?thesis using True Some "1.prems"
          by (simp add: fix_bitmap_transform.simps [of k drawlist])
      next
        case (Inr p)
        obtain c1 c2 where p: "p = (c1, c2)" by (cases p)
        have "fix_bitmap_transform (k + 1) (drawlist[k := c1, k + 1 := c2]) = Inr dl'"
          using True Some Inr p "1.prems" by (simp add: fix_bitmap_transform.simps [of k drawlist])
        from "1.IH"(2) [OF True Some Inr p [symmetric] this] "1.prems"(2)
        show ?thesis by simp
      qed
    qed
  qed
qed

text \<open>An element that is no ConcatTransform when the loop reaches it stays.\<close>

lemma fix_keeps_head:
  assumes "fix_bitmap_transform k dl = Inr dl'" "\<not> is_ConcatTransform (dl ! k)"
  shows "dl' ! k = dl ! k"
proof (cases "k + 1 < length dl")
  case False
  then show ?thesis using assms by (simp add: fix_bitmap_transform.simps [of k dl])
next
  case True
  have "fix_pair (dl ! k) (dl ! (k + 1)) = None" using assms(2) by (simp add: fix_pair_None_iff)
  then have "fix_bitmap_transform (k + 1) dl = Inr dl'"
    using True assms(1) by (simp add: fix_bitmap_transform.simps [of k dl])
  then show ?thesis by (rule fix_prefix) simp
qed

lemma fix_pairs:
  "fix_bitmap_transform k dl = Inr dl' \<Longrightarrow> k \<le> j \<Longrightarrow> j + 1 < length dl \<Longrightarrow>
   fix_pair (dl ! j) (dl ! (j + 1)) = Some r \<Longrightarrow> r = Inr (dl' ! j, dl' ! (j + 1))"
proof (induction k dl rule: fix_bitmap_transform.induct)
  case (1 k drawlist)
  have True: "k + 1 < length drawlist" using "1.prems" by simp
  show ?case
  proof (cases "fix_pair (drawlist ! k) (drawlist ! (k + 1))")
    case None
    then have rec: "fix_bitmap_transform (k + 1) drawlist = Inr dl'"
      using True "1.prems" by (simp add: fix_bitmap_transform.simps [of k drawlist])
    have "j \<noteq> k" using None "1.prems"(4) by auto
    then have "k + 1 \<le> j" using "1.prems"(2) by simp
    from "1.IH"(1) [OF True None rec this "1.prems"(3,4)] show ?thesis .
  next
    case (Some r0)
    show ?thesis
    proof (cases r0)
      case (Inl e)
      then show ?thesis using True Some "1.prems"
        by (simp add: fix_bitmap_transform.simps [of k drawlist])
    next
      case (Inr p)
      obtain c1 c2 where p: "p = (c1, c2)" by (cases p)
      let ?dl2 = "drawlist[k := c1, k + 1 := c2]"
      have rec: "fix_bitmap_transform (k + 1) ?dl2 = Inr dl'"
        using True Some Inr p "1.prems" by (simp add: fix_bitmap_transform.simps [of k drawlist])
      have kinds: "is_ConcatTransform c1 \<and> is_DrawBitmap c2
          \<and> is_ConcatTransform (drawlist ! k) \<and> is_DrawBitmap (drawlist ! (k + 1))"
        using Some Inr p fix_pair_Inr_kinds by blast
      show ?thesis
      proof (cases "j = k")
        case jk: True
        have a: "dl' ! k = c1" using fix_prefix [OF rec, of k] True by simp
        have "dl' ! (k + 1) = ?dl2 ! (k + 1)"
          using fix_keeps_head [OF rec] kinds True not_both by simp
        then have b: "dl' ! (k + 1) = c2" using True by simp
        show ?thesis using jk a b Some Inr p "1.prems"(4) by simp
      next
        case False
        have "j \<noteq> k + 1"
        proof
          assume "j = k + 1"
          then have "is_ConcatTransform (drawlist ! (k + 1))"
            using "1.prems"(4) fix_pair_None_iff [of "drawlist ! j" "drawlist ! (j + 1)"] by auto
          then show False using kinds not_both by blast
        qed
        then have j2: "k + 2 \<le> j" using False "1.prems"(2) by simp
        then have same: "?dl2 ! j = drawlist ! j" "?dl2 ! (j + 1) = drawlist ! (j + 1)" by simp_all
        have "k + 1 \<le> j" using j2 by simp
        from "1.IH"(2) [OF True Some Inr p [symmetric] rec this] "1.prems"(3,4) same
        show ?thesis by simp
      qed
    qed
  qed
qed

lemma fix_unchanged:
  "fix_bitmap_transform k dl = Inr dl' \<Longrightarrow> j < length dl \<Longrightarrow> is_ConcatTransform (dl ! j) \<Longrightarrow>
   \<not> (j + 1 < length dl \<and> is_DrawBitmap (dl ! (j + 1))) \<Longrightarrow> dl' ! j = dl ! j"
proof (induction k dl rule: fix_bitmap_transform.induct)
  case (1 k drawlist)
  show ?case
  proof (cases "k + 1 < length drawlist")
    case False
    then show ?thesis using "1.prems" by (simp add: fix_bitmap_transform.simps [of k drawlist])
  next
    case True
    show ?thesis
    proof (cases "fix_pair (drawlist ! k) (drawlist ! (k + 1))")
      case None
      then have rec: "fix_bitmap_transform (k + 1) drawlist = Inr dl'"
        using True "1.prems" by (simp add: fix_bitmap_transform.simps [of k drawlist])
      from "1.IH"(1) [OF True None rec "1.prems"(2,3,4)] show ?thesis .
    next
      case (Some r0)
      show ?thesis
      proof (cases r0)
        case (Inl e)
        then show ?thesis using True Some "1.prems"
          by (simp add: fix_bitmap_transform.simps [of k drawlist])
      next
        case (Inr p)
        obtain c1 c2 where p: "p = (c1, c2)" by (cases p)
        let ?dl2 = "drawlist[k := c1, k + 1 := c2]"
        have rec: "fix_bitmap_transform (k + 1) ?dl2 = Inr dl'"
          using True Some Inr p "1.prems" by (simp add: fix_bitmap_transform.simps [of k drawlist])
        have kinds: "is_ConcatTransform c1 \<and> is_DrawBitmap c2
            \<and> is_ConcatTransform (drawlist ! k) \<and> is_DrawBitmap (drawlist ! (k + 1))"
          using Some Inr p fix_pair_Inr_kinds by blast
        have jk: "j \<noteq> k" using kinds "1.prems"(4) True by auto
        have jk1: "j \<noteq> k + 1" using kinds "1.prems"(3) not_both by auto
        have same: "?dl2 ! j = drawlist ! j" using jk jk1 by simp
        have nxt: "\<not> (j + 1 < length ?dl2 \<and> is_DrawBitmap (?dl2 ! (j + 1)))"
        proof (cases "j + 1 = k")
          case True
          then show ?thesis using kinds not_both \<open>k + 1 < length drawlist\<close> by auto
        next
          case False
          then have "?dl2 ! (j + 1) = drawlist ! (j + 1)" using jk by simp
          then show ?thesis using "1.prems"(4) by simp
        qed
        from "1.IH"(2) [OF True Some Inr p [symmetric] rec] "1.prems"(2,3) same nxt
        show ?thesis by simp
      qed
    qed
  qed
qed

lemma fix_total:
  "(\<forall>j e. j + 1 < length dl \<longrightarrow> fix_pair (dl ! j) (dl ! (j + 1)) \<noteq> Some (Inl e)) \<Longrightarrow>
   \<exists>dl'. fix_bitmap_transform k dl = Inr dl'"
proof (induction k dl rule: fix_bitmap_transform.induct)
  case (1 k drawlist)
  show ?case
  proof (cases "k + 1 < length drawlist")
    case False
    then show ?thesis by (simp add: fix_bitmap_transform.simps [of k drawlist])
  next
    case True
    show ?thesis
    proof (cases "fix_pair (drawlist ! k) (drawlist ! (k + 1))")
      case None
      from "1.IH"(1) [OF True None "1.prems"] None True show ?thesis
        by (simp add: fix_bitmap_transform.simps [of k drawlist])
    next
      case (Some r0)
      show ?thesis
      proof (cases r0)
        case (Inl e)
        then show ?thesis using True Some "1.prems" by blast
      next
        case (Inr p)
        obtain c1 c2 where p: "p = (c1, c2)" by (cases p)
        let ?dl2 = "drawlist[k := c1, k + 1 := c2]"
        have kinds: "is_ConcatTransform c1 \<and> is_DrawBitmap c2
            \<and> is_ConcatTransform (drawlist ! k) \<and> is_DrawBitmap (drawlist ! (k + 1))"
          using Some Inr p fix_pair_Inr_kinds by blast
        have ok: "\<forall>j e. j + 1 < length ?dl2 \<longrightarrow> fix_pair (?dl2 ! j) (?dl2 ! (j + 1)) \<noteq> Some (Inl e)"
        proof (intro allI impI)
          fix j e assume j: "j + 1 < length ?dl2"
          show "fix_pair (?dl2 ! j) (?dl2 ! (j + 1)) \<noteq> Some (Inl e)"
          proof (cases "j = k")
            case True
            then have "fix_pair (?dl2 ! j) (?dl2 ! (j + 1)) = fix_pair c1 c2" using j by simp
            moreover have "fix_pair c1 c2 \<noteq> Some (Inl e)"
              using Some Inr p
              by (cases "drawlist ! k"; cases "drawlist ! (k + 1)")
                 (auto simp: fix_pair_def Let_def split: if_splits)
            ultimately show ?thesis by simp
          next
            case False
            show ?thesis
            proof (cases "j = k + 1")
              case True
              then have "\<not> is_ConcatTransform (?dl2 ! j)" using kinds not_both j by simp
              then have "fix_pair (?dl2 ! j) (?dl2 ! (j + 1)) = None"
                by (simp add: fix_pair_None_iff)
              then show ?thesis by simp
            next
              case j1: False
              show ?thesis
              proof (cases "j + 1 = k")
                case True
                then have "\<not> is_DrawBitmap (?dl2 ! (j + 1))"
                  using kinds not_both \<open>k + 1 < length drawlist\<close> by auto
                then have "fix_pair (?dl2 ! j) (?dl2 ! (j + 1)) = None"
                  by (simp add: fix_pair_None_iff)
                then show ?thesis by simp
              next
                case j2: False
                then have "?dl2 ! j = drawlist ! j" "?dl2 ! (j + 1) = drawlist ! (j + 1)"
                  using False j1 by simp_all
                then show ?thesis using "1.prems" j by simp
              qed
            qed
          qed
        qed
        from "1.IH"(2) [OF True Some Inr p [symmetric] ok] True Some Inr p show ?thesis
          by (simp add: fix_bitmap_transform.simps [of k drawlist])
      qed
    qed
  qed
qed

text \<open>
  C4 (as amended). For a draw list in which every ConcatTransform that stands right
  before a DrawBitmap has non-zero scale factors sx and sy, the transform fix returns a
  list of the same length in which every pair ConcatTransform(sx,0,0,sy,tx,ty),
  DrawBitmap(bmp,x,y,w0,h0) has become ConcatTransform(1,0,0,1,tx,ty),
  DrawBitmap(bmp,x,-sy,sx,sy), and every ConcatTransform not right before a DrawBitmap
  is as it was.
\<close>

theorem fix_bitmap_transform_folds_scale:
  assumes nz: "\<forall>j a b c d e f bm x y w h. j + 1 < length dl \<and> dl ! j = ConcatTransform a b c d e f
             \<and> dl ! (j + 1) = DrawBitmap bm x y w h \<longrightarrow> a \<noteq> 0 \<and> d \<noteq> 0"
  shows "\<exists>dl'. fix_bitmap_transform 0 dl = Inr dl' \<and> length dl' = length dl
     \<and> (\<forall>j sx sy tx ty bmp x y w0 h0.
           j + 1 < length dl \<and> dl ! j = ConcatTransform sx 0 0 sy tx ty
             \<and> dl ! (j + 1) = DrawBitmap bmp x y w0 h0
           \<longrightarrow> dl' ! j = ConcatTransform 1 0 0 1 tx ty
               \<and> dl' ! (j + 1) = DrawBitmap bmp x (- sy) sx sy)
     \<and> (\<forall>j. j < length dl \<and> is_ConcatTransform (dl ! j)
             \<and> \<not> (j + 1 < length dl \<and> is_DrawBitmap (dl ! (j + 1)))
           \<longrightarrow> dl' ! j = dl ! j)"
proof -
  have "\<forall>j e. j + 1 < length dl \<longrightarrow> fix_pair (dl ! j) (dl ! (j + 1)) \<noteq> Some (Inl e)"
  proof (intro allI impI)
    fix j e assume j: "j + 1 < length dl"
    show "fix_pair (dl ! j) (dl ! (j + 1)) \<noteq> Some (Inl e)"
      using nz [rule_format, of j] j
      by (cases "dl ! j"; cases "dl ! (j + 1)") (auto simp: fix_pair_def Let_def)
  qed
  then obtain dl' where r: "fix_bitmap_transform 0 dl = Inr dl'" using fix_total by blast
  have len: "length dl' = length dl" using r by (rule fix_length)
  have pairs: "\<forall>j sx sy tx ty bmp x y w0 h0.
           j + 1 < length dl \<and> dl ! j = ConcatTransform sx 0 0 sy tx ty
             \<and> dl ! (j + 1) = DrawBitmap bmp x y w0 h0
           \<longrightarrow> dl' ! j = ConcatTransform 1 0 0 1 tx ty
               \<and> dl' ! (j + 1) = DrawBitmap bmp x (- sy) sx sy"
  proof (intro allI impI)
    fix j sx sy tx ty bmp x y w0 h0
    assume a: "j + 1 < length dl \<and> dl ! j = ConcatTransform sx 0 0 sy tx ty
             \<and> dl ! (j + 1) = DrawBitmap bmp x y w0 h0"
    then have "sx \<noteq> 0 \<and> sy \<noteq> 0" using nz by blast
    then have "fix_pair (dl ! j) (dl ! (j + 1))
        = Some (Inr (ConcatTransform 1 0 0 1 tx ty, DrawBitmap bmp x (- sy) sx sy))"
      using a by (simp add: fix_pair_def)
    from fix_pairs [OF r _ _ this] a
    show "dl' ! j = ConcatTransform 1 0 0 1 tx ty \<and> dl' ! (j + 1) = DrawBitmap bmp x (- sy) sx sy"
      by simp
  qed
  have keep: "\<forall>j. j < length dl \<and> is_ConcatTransform (dl ! j)
             \<and> \<not> (j + 1 < length dl \<and> is_DrawBitmap (dl ! (j + 1)))
           \<longrightarrow> dl' ! j = dl ! j"
    using fix_unchanged [OF r] by blast
  show ?thesis using r len pairs keep by blast
qed

theorem fix_bitmap_transform_folds_scale_witness:
  "\<exists>dl'. fix_bitmap_transform 0
       [ConcatTransform 2 0 0 3 5 7, DrawBitmap (FromJPEG []) 0 (- 1) 1 1,
        ConcatTransform 4 0 0 6 1 1, PushState] = Inr dl'
     \<and> length dl' = 4
     \<and> dl' ! 0 = ConcatTransform 1 0 0 1 5 7
     \<and> dl' ! 1 = DrawBitmap (FromJPEG []) 0 (- 3) 2 3
     \<and> dl' ! 2 = ConcatTransform 4 0 0 6 1 1"
proof -
  let ?dl = "[ConcatTransform 2 0 0 3 5 7, DrawBitmap (FromJPEG []) 0 (- 1) 1 1,
      ConcatTransform 4 0 0 6 1 1, PushState]"
  have nz: "\<forall>j a b c d e f bm x y w h. j + 1 < length ?dl \<and> ?dl ! j = ConcatTransform a b c d e f
             \<and> ?dl ! (j + 1) = DrawBitmap bm x y w h \<longrightarrow> a \<noteq> 0 \<and> d \<noteq> 0"
    by (auto simp: nth_Cons split: nat.splits)
  from fix_bitmap_transform_folds_scale [OF nz]
  obtain dl' where r: "fix_bitmap_transform 0 ?dl = Inr dl'" and l: "length dl' = length ?dl"
    and pairs: "\<forall>j sx sy tx ty bmp x y w0 h0.
           j + 1 < length ?dl \<and> ?dl ! j = ConcatTransform sx 0 0 sy tx ty
             \<and> ?dl ! (j + 1) = DrawBitmap bmp x y w0 h0
           \<longrightarrow> dl' ! j = ConcatTransform 1 0 0 1 tx ty
               \<and> dl' ! (j + 1) = DrawBitmap bmp x (- sy) sx sy"
    and keep: "\<forall>j. j < length ?dl \<and> is_ConcatTransform (?dl ! j)
             \<and> \<not> (j + 1 < length ?dl \<and> is_DrawBitmap (?dl ! (j + 1)))
           \<longrightarrow> dl' ! j = ?dl ! j"
    by blast
  have p0: "dl' ! 0 = ConcatTransform 1 0 0 1 5 7
      \<and> dl' ! (0 + 1) = DrawBitmap (FromJPEG []) 0 (- 3) 2 3"
    using pairs [rule_format, of 0 2 3 5 7 "FromJPEG []" 0 "- 1" 1 1] by simp
  have k2: "dl' ! 2 = ?dl ! 2" using keep [rule_format, of 2] by simp
  show ?thesis using r l p0 k2 by simp
qed

text \<open>A ConcatTransform with a zero scale factor before a DrawBitmap (\<^verbatim>\<open>0 0 0 0 5 7 cm\<close>
  and an image) makes the fix raise.\<close>

theorem fix_bitmap_transform_zero_scale_counterexample:
  "fix_bitmap_transform 0 [ConcatTransform 0 0 0 0 5 7, DrawBitmap (FromJPEG []) 0 (- 1) 1 1]
   = Inl ZeroDivisionError"
  by code_simp

subsection \<open>Rectangles\<close>

lemma path_cmds_append:
  "path_cmds (xs @ ys) s = bnd (path_cmds xs s) (path_cmds ys)"
  by (induction xs arbitrary: s) (auto simp: bnd_def split: sum.splits)

lemma path_seg_re_negative:
  assumes "h < 0"
  shows "path_seg ([x, y, w, h], ''re'') s = path_seg ([x, y + h, w, - h], ''re'') s"
  using assms by (cases s) (simp add: path_seg_def Let_def)

lemma DrawPath_cong:
  assumes eq: "\<And>tl s. path_cmds (p1 @ tl) s = path_cmds (p2 @ tl) s"
  shows "map_sum id fst (DrawPath g p1 action) = map_sum id fst (DrawPath g p2 action)"
proof (cases "acts action")
  case None
  then show ?thesis by (simp add: DrawPath_def)
next
  case (Some t)
  obtain stroke fill rule where t: "t = (stroke, fill, rule)" by (cases t)
  have e0: "\<And>s. path_cmds p1 s = path_cmds p2 s" using eq [of "[]"] by simp
  show ?thesis
  proof (cases "action = ''s'' \<or> action = ''b'' \<or> action = ''b*''")
    case True
    then show ?thesis
      unfolding DrawPath_def Some t
      by (simp add: Let_def eq del: path_cmds.simps split: sum.split prod.split split del: if_split
            cong: if_cong)
  next
    case False
    then show ?thesis
      unfolding DrawPath_def Some t
      by (simp add: Let_def e0 del: path_cmds.simps split: sum.split prod.split split del: if_split
            cong: if_cong)
  qed
qed

text \<open>
  C8. A rectangle segment with a negative height h gives the same commands as the
  rectangle with the origin moved by h and the height -h, wherever it stands in a
  path and whatever paints the path: both give AddRectangle(x, -y, w, -h). So
  \<^verbatim>\<open>re(0,0,10,-5)\<close> and \<^verbatim>\<open>re(0,-5,10,5)\<close> both give AddRectangle(0,0,10,5). Coordinate
  arithmetic is taken as exact.
\<close>

theorem re_negative_height_normalised:
  assumes "h < 0"
  shows "map_sum id fst (DrawPath g (pre @ [([x, y, w, h], ''re'')] @ post) action)
       = map_sum id fst (DrawPath g (pre @ [([x, y + h, w, - h], ''re'')] @ post) action)
     \<and> path_seg ([x, y, w, h], ''re'') (cur, dlist)
         = Inr (cur, dlist @ [AddRectangle x (- y) w (- h)])
     \<and> path_seg ([x, y + h, w, - h], ''re'') (cur, dlist)
         = Inr (cur, dlist @ [AddRectangle x (- y) w (- h)])"
proof -
  have seg: "\<And>s. path_seg ([x, y, w, h], ''re'') s = path_seg ([x, y + h, w, - h], ''re'') s"
    using assms by (rule path_seg_re_negative)
  have cmds: "\<And>tl s. path_cmds (pre @ [([x, y, w, h], ''re'')] @ post @ tl) s
      = path_cmds (pre @ [([x, y + h, w, - h], ''re'')] @ post @ tl) s"
  proof -
    fix tl s
    have "path_cmds (([x, y, w, h], ''re'') # post @ tl)
        = path_cmds (([x, y + h, w, - h], ''re'') # post @ tl)"
      by (rule ext) (simp add: seg)
    then show "path_cmds (pre @ [([x, y, w, h], ''re'')] @ post @ tl) s
      = path_cmds (pre @ [([x, y + h, w, - h], ''re'')] @ post @ tl) s"
      by (simp add: path_cmds_append)
  qed
  have a: "map_sum id fst (DrawPath g (pre @ [([x, y, w, h], ''re'')] @ post) action)
       = map_sum id fst (DrawPath g (pre @ [([x, y + h, w, - h], ''re'')] @ post) action)"
    using cmds by (intro DrawPath_cong) simp
  have b: "path_seg ([x, y, w, h], ''re'') (cur, dlist)
         = Inr (cur, dlist @ [AddRectangle x (- y) w (- h)])"
    using assms by (simp add: path_seg_def Let_def)
  show ?thesis using a b seg by simp
qed

theorem re_negative_height_normalised_witness:
  "path_seg ([0, 0, 10, - 5], ''re'') (None, []) = Inr (None, [AddRectangle 0 0 10 5])
   \<and> path_seg ([0, - 5, 10, 5], ''re'') (None, []) = Inr (None, [AddRectangle 0 0 10 5])"
  using re_negative_height_normalised [where h = "- 5" and x = 0 and y = 0 and w = 10
      and cur = None and dlist = "[]"] by simp

subsection \<open>Restoring with an empty stack\<close>

lemma run_ops_append:
  "run_ops rec h pdf_fonts (xs @ ys) s
     = bnd (run_ops rec h pdf_fonts xs s) (run_ops rec h pdf_fonts ys)"
  by (induction xs arbitrary: s) (auto simp: bnd_def split: sum.splits)

lemma step_Q_empty:
  "saved_state \<sigma> = [] \<Longrightarrow> step rec h pdf_fonts (Op operand (Str ''Q'')) (l, \<sigma>) = Inl IndexError"
  by (simp add: step_def step_str_def do_Q_def)

text \<open>
  C2 (as amended). A \<^verbatim>\<open>Q\<close> that is processed while the stack of saved states is empty
  raises \<^verbatim>\<open>IndexError\<close> (\<^verbatim>\<open>pop\<close> from an empty list): \<^verbatim>\<open>ProcessOperators\<close> ends there,
  processes none of the operators after it and returns no draw list.
\<close>

theorem Q_on_empty_stack_raises:
  assumes "run n h pdf_fonts pre (locals_init, \<sigma>0) = Inr (l, \<sigma>)" and "saved_state \<sigma> = []"
  shows "ProcessOperators (Suc n) h (pre @ Op operand (Str ''Q'') # post) pdf_fonts \<sigma>0
           = Inl IndexError"
  using assms by (simp add: run_def run_ops_append step_Q_empty)

theorem Q_on_empty_stack_raises_witness:
  "ProcessOperators 1 demo_host
     ([Op [] (Str ''q''), Op [NumberObject 3] (Str ''w''), Op [] (Str ''Q'')]
        @ Op [] (Str ''Q'') # [Op [NumberObject 1, NumberObject 0, NumberObject 0] (Str ''rg'')])
     [] demo_interp
   = Inl IndexError"
proof -
  let ?pre = "[Op [] (Str ''q''), Op [NumberObject 3] (Str ''w''), Op [] (Str ''Q'')]"
  have "map_sum id (\<lambda>s. saved_state (snd s)) (run 0 demo_host [] ?pre (locals_init, demo_interp))
          = Inr []"
    by code_simp
  then obtain l \<sigma> where "run 0 demo_host [] ?pre (locals_init, demo_interp) = Inr (l, \<sigma>)"
      and "saved_state \<sigma> = []"
    by (cases "run 0 demo_host [] ?pre (locals_init, demo_interp)") auto
  then show ?thesis using Q_on_empty_stack_raises [of 0 demo_host "[]" ?pre demo_interp l \<sigma>]
    by simp
qed

text \<open>A stream that starts with \<^verbatim>\<open>Q\<close>: the colour operator after it is never reached.\<close>

theorem Q_without_q_counterexample:
  "ProcessOperators 1 demo_host
     [Op [] (Str ''Q''), Op [NumberObject 1, NumberObject 0, NumberObject 0] (Str ''rg'')]
     [] demo_interp
   = Inl IndexError"
  by code_simp

subsection \<open>Images with an unsupported colour space\<close>

text \<open>
  C3. A page that fills a rectangle and then draws an 8-bit CMYK image (no JPEG filter,
  no mask): the branch for an unsupported colour space assigns no bitmap, the last
  statement of the image branch reads \<^verbatim>\<open>bitmap\<close>, and \<^verbatim>\<open>UnboundLocalError\<close> ends
  \<^verbatim>\<open>ProcessOperators\<close>: no command of the page is returned, neither those before the
  image nor those after it.
\<close>

theorem unsupported_colour_space_raises:
  "ProcessOperators 1 demo_host
     [Op [NumberObject 0, NumberObject 0, NumberObject 10, NumberObject 10] (Str ''re''),
      Op [] (Str ''f''),
      Op [NameObject ''/Im1''] (Str ''Do''),
      Op [NameObject ''/Im2''] (Str ''Do'')]
     [] demo_interp
   = Inl UnboundLocalError"
  by code_simp

text \<open>The same page with the RGB image alone is drawn, and whenever the image branch
  returns at all it returns exactly one DrawBitmap.\<close>

lemma supported_image_draws:
  "map_sum id fst (ProcessOperators 1 demo_host
     [Op [NumberObject 0, NumberObject 0, NumberObject 10, NumberObject 10] (Str ''re''),
      Op [] (Str ''f''),
      Op [NameObject ''/Im2''] (Str ''Do'')]
     [] demo_interp)
   = Inr [SetPen TRANSPARENT_PEN, SetBrush (Brush (Colour 0 0 0 255)), CreatePath,
          AddRectangle 0 (- 10) 10 10, DrawPath_cmd WINDING_RULE,
          DrawBitmap (FromBuffer 1 1 [9, 8, 7]) 0 (- 1) 1 1]"
  by code_simp

lemma bound_eq_Inr: "bound v = Inr x \<longleftrightarrow> v = Some x"
  by (cases v) (simp_all add: bound_def)

lemma InsertXObject_image_one_bitmap:
  assumes "InsertXObject_image h stream data = Inr dlist"
  shows "\<exists>bitmap x y w ht. dlist = [DrawBitmap bitmap x y w ht]"
  using assms
  by (auto simp: InsertXObject_image_def DrawBitmap_of_def bnd_eq_Inr split: prod.splits)

subsection \<open>Text without a font\<close>

lemma SetFont_None: "SetFont None sz \<sigma> = (Inl AttributeError, \<sigma>\<lparr>knownfont := True\<rparr>)"
  by (simp add: SetFont_def)

lemma DrawTextString_no_font:
  "font (gstate \<sigma>) = None \<Longrightarrow>
   DrawTextString h text \<sigma> = (Inl AttributeError, \<sigma>\<lparr>knownfont := True\<rparr>)"
  by (simp add: DrawTextString_def Let_def sbnd_def SetFont_None)

lemma show_text_no_font:
  "font (gstate \<sigma>) = None \<Longrightarrow> show_text h text (l, \<sigma>) = Inl AttributeError"
  by (simp add: show_text_def DrawTextString_no_font)

lemma TJ_element_no_font:
  "font (gstate \<sigma>) = None \<Longrightarrow>
   TJ_element h e2 (l, \<sigma>) = (l, if is_number e2 then \<sigma> else \<sigma>\<lparr>knownfont := True\<rparr>)"
  by (simp add: TJ_element_def DrawTextString_no_font split: sum.splits)

lemma fold_TJ_element_no_font:
  "font (gstate \<sigma>) = None \<Longrightarrow>
   fold (TJ_element h) es (l, \<sigma>)
     = (l, if list_all is_number es then \<sigma> else \<sigma>\<lparr>knownfont := True\<rparr>)"
  by (induction es arbitrary: \<sigma>) (simp_all add: TJ_element_no_font)

lemma font_copy_line_matrix [simp]: "font (gstate (copy_line_matrix \<sigma>)) = font (gstate \<sigma>)"
  by (simp add: copy_line_matrix_def split: prod.splits)

lemma gstate_add_line_matrix [simp]: "gstate (add_line_matrix i old v \<sigma>) = gstate \<sigma>"
  by (simp add: add_line_matrix_def Let_def)

lemma next_line_gstate:
  "next_line \<sigma> = Inr \<sigma>' \<Longrightarrow> font (gstate \<sigma>') = font (gstate \<sigma>)"
  by (auto simp: next_line_def Let_def bnd_eq_Inr)

lemma isl_bnd2: "(\<And>x. isl (f x)) \<Longrightarrow> isl (bnd r f)"
  by (cases r) simp_all

lemma show_tail_no_font:
  "font (gstate \<sigma>1) = None \<Longrightarrow>
   isl (bnd (item operand i) (\<lambda>x. bnd (decode_latin1 x)
          (\<lambda>t. show_text h (TextStringObject t) (l, \<sigma>1))))"
  by (intro isl_bnd2) (simp add: show_text_no_font)

lemma quote_tail_no_font:
  assumes "font (gstate s) = None"
  shows "isl (bnd (next_line s) (\<lambda>\<sigma>1. bnd (item operand i) (\<lambda>x. bnd (decode_latin1 x)
          (\<lambda>t. show_text h (TextStringObject t) (l, \<sigma>1)))))"
proof (cases "next_line s")
  case (Inl e)
  then show ?thesis by simp
next
  case (Inr \<sigma>1)
  then have "font (gstate \<sigma>1) = None" using next_line_gstate assms by simp
  then show ?thesis using Inr show_tail_no_font by simp
qed

text \<open>
  C10 (as amended). While the font of the state is \<^verbatim>\<open>None\<close> (no \<^verbatim>\<open>Tf\<close> yet), the
  operators \<^verbatim>\<open>Tj\<close>, \<^verbatim>\<open>'\<close> and \<^verbatim>\<open>"\<close> raise an exception, whatever their operands
  (\<^verbatim>\<open>AttributeError\<close> from \<^verbatim>\<open>None.lower()\<close> for \<^verbatim>\<open>Tj\<close> with a byte string). In \<^verbatim>\<open>TJ\<close> the
  same exception is caught: no element of the array is drawn, no exception leaves
  the operator, and the only trace is that \<^verbatim>\<open>knownfont\<close> has been set.
\<close>

theorem show_text_without_font:
  assumes "font (gstate \<sigma>) = None"
  shows "isl (step rec h pdf_fonts (Op operand (Str ''Tj'')) (l, \<sigma>))
       \<and> isl (step rec h pdf_fonts (Op operand (Str [CHR 0x27])) (l, \<sigma>))
       \<and> isl (step rec h pdf_fonts (Op operand (Str [CHR 0x22])) (l, \<sigma>))
       \<and> step rec h pdf_fonts (Op [ByteStringObject b] (Str ''Tj'')) (l, \<sigma>) = Inl AttributeError
       \<and> step rec h pdf_fonts (Op [ArrayObject es] (Str ''TJ'')) (l, \<sigma>)
           = Inr (l, if list_all is_number es then \<sigma> else \<sigma>\<lparr>knownfont := True\<rparr>)"
proof -
  have tj: "step rec h pdf_fonts (Op operand (Str ''Tj'')) (l, \<sigma>) = do_Tj h operand (l, \<sigma>)"
    for operand
    by (simp add: step_def step_str_def state_op_def)
  have q: "step rec h pdf_fonts (Op operand (Str [CHR 0x27])) (l, \<sigma>) = do_quote h operand (l, \<sigma>)"
    by (simp add: step_def step_str_def state_op_def)
  have dq: "step rec h pdf_fonts (Op operand (Str [CHR 0x22])) (l, \<sigma>) = do_dquote h operand (l, \<sigma>)"
    by (simp add: step_def step_str_def state_op_def)
  have TJ: "step rec h pdf_fonts (Op [ArrayObject es] (Str ''TJ'')) (l, \<sigma>)
      = do_TJ h [ArrayObject es] (l, \<sigma>)"
    by (simp add: step_def step_str_def state_op_def)
  have a: "isl (do_Tj h operand (l, \<sigma>))"
    unfolding do_Tj_def by (intro isl_bnd2) (simp add: show_text_no_font assms)
  have b: "isl (do_quote h operand (l, \<sigma>))"
    using quote_tail_no_font [OF assms] by (simp add: do_quote_def)
  have c: "isl (do_dquote h operand (l, \<sigma>))"
    unfolding do_dquote_def prod.case
    by (rule isl_bnd2, rule isl_bnd2, rule quote_tail_no_font) (simp add: assms)
  have d: "do_Tj h [ByteStringObject b] (l, \<sigma>) = Inl AttributeError"
    by (simp add: do_Tj_def item_def decode_latin1_def show_text_no_font assms)
  have e: "do_TJ h [ArrayObject es] (l, \<sigma>)
      = Inr (l, if list_all is_number es then \<sigma> else \<sigma>\<lparr>knownfont := True\<rparr>)"
    using fold_TJ_element_no_font [OF assms] by simp
  show ?thesis using a b c d e tj q dq TJ by simp
qed

theorem show_text_without_font_witness:
  "step (ProcessOperators 0 demo_host) demo_host []
     (Op [ByteStringObject [72, 105]] (Str ''Tj'')) (locals_init, demo_interp)
     = Inl AttributeError
   \<and> step (ProcessOperators 0 demo_host) demo_host []
     (Op [ArrayObject [ByteStringObject [72, 105], NumberObject (- 120)]] (Str ''TJ''))
     (locals_init, demo_interp)
     = Inr (locals_init, demo_interp\<lparr>knownfont := True\<rparr>)"
proof -
  have "font (gstate demo_interp) = None" by code_simp
  from show_text_without_font [OF this, of "ProcessOperators 0 demo_host" demo_host "[]" _
      locals_init "[72, 105]" "[ByteStringObject [72, 105], NumberObject (- 120)]"]
  show ?thesis by simp
qed

text \<open>A \<^verbatim>\<open>TJ\<close> before any \<^verbatim>\<open>Tf\<close>: the text is skipped and the rest of the page is
  drawn.\<close>

theorem TJ_without_font_counterexample:
  "map_sum id fst
     (ProcessOperators 1 demo_host
        [Op [ArrayObject [ByteStringObject [72, 105]]] (Str ''TJ''),
         Op [NumberObject 0, NumberObject 0, NumberObject 10, NumberObject 10] (Str ''re''),
         Op [] (Str ''n'')]
        [] demo_interp)
   = Inr [SetPen TRANSPARENT_PEN, SetBrush TRANSPARENT_BRUSH, CreatePath,
          AddRectangle 0 (- 10) 10 10, DrawPath_cmd Rule_0]"
  by code_simp

subsection \<open>Text arrays\<close>

lemma SetFont_idem:
  assumes "SetFont p s \<sigma> = (Inr F, \<sigma>a)"
  shows "SetFont p s (\<sigma>a\<lparr>heap := H\<rparr>) = (Inr F, \<sigma>a\<lparr>heap := H\<rparr>)"
    and "gstate \<sigma>a = gstate \<sigma>" and "heap \<sigma>a = heap \<sigma>" and "saved_state \<sigma>a = saved_state \<sigma>"
proof -
  obtain name sz where p: "p = Some name" and s: "s = Some sz"
    using assms by (cases p; cases s) (auto simp: SetFont_def Let_def split: prod.splits option.splits)
  show "SetFont p s (\<sigma>a\<lparr>heap := H\<rparr>) = (Inr F, \<sigma>a\<lparr>heap := H\<rparr>)"
    using assms unfolding p s
    by (cases "font_guess (lower name)") (auto simp: SetFont_def Let_def split: prod.splits)
  show "gstate \<sigma>a = gstate \<sigma>" "heap \<sigma>a = heap \<sigma>" "saved_state \<sigma>a = saved_state \<sigma>"
    using assms unfolding p s
    by (cases "font_guess (lower name)"; auto simp: SetFont_def Let_def split: prod.splits)+
qed

lemma SetFont_idem0:
  assumes "SetFont p s \<sigma> = (Inr F, \<sigma>a)"
  shows "SetFont p s \<sigma>a = (Inr F, \<sigma>a)"
  using SetFont_idem(1) [OF assms, of "heap \<sigma>a"] by simp

lemma mat_at_valid: "0 < length (mat_at st a) \<Longrightarrow> a < length (mats st)"
  by (auto simp: mat_at_def split: if_splits)

lemma mat_at_set_mat: "a < length (mats st) \<Longrightarrow> mat_at (set_mat a xs st) a = xs"
  by (simp add: mat_at_def set_mat_def)

lemma DrawTextItem_plain:
  assumes "wordSpacing (gstate \<sigma>) \<le> 0"
    and "6 \<le> length (mat_at (heap \<sigma>) (textMatrix (gstate \<sigma>)))"
    and "text_extent h (knownfont \<sigma>) (gstate \<sigma>) e f = Inr (width, ht, descend)"
  shows "DrawTextItem h e f \<sigma> =
     (Inr (DrawText e (mat_at (heap \<sigma>) (textMatrix (gstate \<sigma>)) ! 4)
             (- (mat_at (heap \<sigma>) (textMatrix (gstate \<sigma>)) ! 5 + textRise (gstate \<sigma>))
                - (ht - descend))),
      \<sigma>\<lparr>heap := set_mat (textMatrix (gstate \<sigma>))
                  ((mat_at (heap \<sigma>) (textMatrix (gstate \<sigma>)))
                     [4 := mat_at (heap \<sigma>) (textMatrix (gstate \<sigma>)) ! 4
                            + (width + wordSpacing (gstate \<sigma>))])
                  (heap \<sigma>)\<rparr>)"
  using assms by (simp add: DrawTextItem_def Let_def item_def)

lemma DrawTextString_plain:
  assumes sf: "SetFont (font (gstate \<sigma>)) (fontSize (gstate \<sigma>)) \<sigma> = (Inr F, \<sigma>a)"
    and ws: "wordSpacing (gstate \<sigma>) \<le> 0"
    and tm: "6 \<le> length (mat_at (heap \<sigma>) (textMatrix (gstate \<sigma>)))"
    and ext: "text_extent h (knownfont \<sigma>a) (gstate \<sigma>) e (Scale (font_scale_metrics h) F)
                = Inr (width, ht, descend)"
  shows "DrawTextString h e \<sigma> =
     (Inr [SetFont_cmd (Scale (font_scale_size h) F) (GetFillRGBA (gstate \<sigma>)),
           DrawText e (mat_at (heap \<sigma>) (textMatrix (gstate \<sigma>)) ! 4)
             (- (mat_at (heap \<sigma>) (textMatrix (gstate \<sigma>)) ! 5 + textRise (gstate \<sigma>))
                - (ht - descend))],
      \<sigma>a\<lparr>heap := set_mat (textMatrix (gstate \<sigma>))
                  ((mat_at (heap \<sigma>) (textMatrix (gstate \<sigma>)))
                     [4 := mat_at (heap \<sigma>) (textMatrix (gstate \<sigma>)) ! 4
                            + (width + wordSpacing (gstate \<sigma>))])
                  (heap \<sigma>)\<rparr>)"
proof -
  note i = SetFont_idem [OF sf]
  have sf2: "SetFont (font (gstate \<sigma>)) (fontSize (gstate \<sigma>)) \<sigma>a = (Inr F, \<sigma>a)"
    using SetFont_idem0 [OF sf] .
  have item: "DrawTextItem h e (Scale (font_scale_metrics h) F) \<sigma>a =
     (Inr (DrawText e (mat_at (heap \<sigma>) (textMatrix (gstate \<sigma>)) ! 4)
             (- (mat_at (heap \<sigma>) (textMatrix (gstate \<sigma>)) ! 5 + textRise (gstate \<sigma>))
                - (ht - descend))),
      \<sigma>a\<lparr>heap := set_mat (textMatrix (gstate \<sigma>))
                  ((mat_at (heap \<sigma>) (textMatrix (gstate \<sigma>)))
                     [4 := mat_at (heap \<sigma>) (textMatrix (gstate \<sigma>)) ! 4
                            + (width + wordSpacing (gstate \<sigma>))])
                  (heap \<sigma>)\<rparr>)"
    using DrawTextItem_plain [of \<sigma>a h e "Scale (font_scale_metrics h) F" width ht descend]
      ws tm ext i(2,3) by simp
  show ?thesis
    using ws by (simp add: DrawTextString_def Let_def sbnd_def sf sf2 lift_def item)
qed

lemma map_filter_append:
  "List.map_filter f (xs @ ys) = List.map_filter f xs @ List.map_filter f ys"
  by (simp add: List.map_filter_def)

lemma TJ_element_number: "is_number e \<Longrightarrow> TJ_element h e s = s"
  by (cases s) (simp add: TJ_element_def)

lemma fold_TJ_element_plain:
  fixes g :: pdfState
  assumes ws: "wordSpacing g \<le> 0"
  shows "SetFont (font g) (fontSize g) \<sigma> = (Inr F, \<sigma>a) \<Longrightarrow> gstate \<sigma> = g \<Longrightarrow>
    knownfont \<sigma>a = K \<Longrightarrow> 6 \<le> length (mat_at (heap \<sigma>) (textMatrix g)) \<Longrightarrow>
    \<forall>e\<in>set es. \<not> is_number e \<longrightarrow> \<not> isl (text_extent h K g e (Scale (font_scale_metrics h) F)) \<Longrightarrow>
    \<exists>l' \<sigma>' new. fold (TJ_element h) es (l, \<sigma>) = (l', \<sigma>') \<and> drawlist l' = drawlist l @ new
       \<and> List.map_filter shown_text new = filter (\<lambda>e. \<not> is_number e) es
       \<and> mat_at (heap \<sigma>') (textMatrix g) ! 4
           = mat_at (heap \<sigma>) (textMatrix g) ! 4
             + sum_list (map (advance h K g (Scale (font_scale_metrics h) F))
                           (filter (\<lambda>e. \<not> is_number e) es))"
proof (induction es arbitrary: l \<sigma> \<sigma>a)
  case Nil
  then show ?case by (simp add: List.map_filter_simps)
next
  case (Cons e es)
  show ?case
  proof (cases "is_number e")
    case True
    from Cons.IH [OF Cons.prems(1-4), of l] Cons.prems(5) True
    show ?thesis by (simp add: TJ_element_number)
  next
    case False
    let ?F0 = "Scale (font_scale_metrics h) F"
    let ?tm = "mat_at (heap \<sigma>) (textMatrix g)"
    from Cons.prems(5) False obtain width ht descend
      where ext: "text_extent h K g e ?F0 = Inr (width, ht, descend)"
      by (cases "text_extent h K g e ?F0") auto
    let ?H = "set_mat (textMatrix g) (?tm[4 := ?tm ! 4 + (width + wordSpacing g)]) (heap \<sigma>)"
    let ?\<sigma>1 = "\<sigma>a\<lparr>heap := ?H\<rparr>"
    let ?cmds = "[SetFont_cmd (Scale (font_scale_size h) F) (GetFillRGBA g),
           DrawText e (?tm ! 4) (- (?tm ! 5 + textRise g) - (ht - descend))]"
    let ?l1 = "l\<lparr>drawlist := drawlist l @ ?cmds\<rparr>"
    have dts: "DrawTextString h e \<sigma> = (Inr ?cmds, ?\<sigma>1)"
      using DrawTextString_plain [of \<sigma> F \<sigma>a h e width ht descend] Cons.prems(1-4) ws ext
      by simp
    have el: "TJ_element h e (l, \<sigma>) = (?l1, ?\<sigma>1)"
      using False dts by (simp add: TJ_element_def)
    note i = SetFont_idem [OF Cons.prems(1)]
    have valid: "textMatrix g < length (mats (heap \<sigma>))"
      using Cons.prems(4) by (intro mat_at_valid) auto
    have tm1: "mat_at (heap ?\<sigma>1) (textMatrix g) = ?tm[4 := ?tm ! 4 + (width + wordSpacing g)]"
      using valid by (simp add: mat_at_set_mat)
    have p1: "SetFont (font g) (fontSize g) ?\<sigma>1 = (Inr F, ?\<sigma>1)" using i(1) by simp
    have p2: "gstate ?\<sigma>1 = g" using i(2) Cons.prems(2) by simp
    have p3: "knownfont ?\<sigma>1 = K" using Cons.prems(3) by simp
    have p4: "6 \<le> length (mat_at (heap ?\<sigma>1) (textMatrix g))" using tm1 Cons.prems(4) by simp
    have p5: "\<forall>e\<in>set es. \<not> is_number e \<longrightarrow> \<not> isl (text_extent h K g e ?F0)"
      using Cons.prems(5) by simp
    from Cons.IH [OF p1 p2 p3 p4 p5, of ?l1]
    obtain l' \<sigma>' new where r: "fold (TJ_element h) es (?l1, ?\<sigma>1) = (l', \<sigma>')"
      and d: "drawlist l' = drawlist ?l1 @ new"
      and t: "List.map_filter shown_text new = filter (\<lambda>e. \<not> is_number e) es"
      and x: "mat_at (heap \<sigma>') (textMatrix g) ! 4
           = mat_at (heap ?\<sigma>1) (textMatrix g) ! 4
             + sum_list (map (advance h K g ?F0) (filter (\<lambda>e. \<not> is_number e) es))"
      by blast
    have adv: "advance h K g ?F0 e = width + wordSpacing g" by (simp add: advance_def ext)
    have x1: "mat_at (heap ?\<sigma>1) (textMatrix g) ! 4 = ?tm ! 4 + (width + wordSpacing g)"
      using tm1 Cons.prems(4) by simp
    have "fold (TJ_element h) (e # es) (l, \<sigma>) = (l', \<sigma>')" using el r by simp
    moreover have "drawlist l' = drawlist l @ (?cmds @ new)" using d by simp
    moreover have "List.map_filter shown_text (?cmds @ new) = filter (\<lambda>e. \<not> is_number e) (e # es)"
      using t False by (simp add: List.map_filter_simps map_filter_append)
    moreover have "mat_at (heap \<sigma>') (textMatrix g) ! 4
           = ?tm ! 4 + sum_list (map (advance h K g ?F0) (filter (\<lambda>e. \<not> is_number e) (e # es)))"
      using x x1 adv False by simp
    ultimately show ?thesis by blast
  qed
qed

lemma fold_TJ_element_filter:
  "fold (TJ_element h) (filter (\<lambda>e. \<not> is_number e) es) s = fold (TJ_element h) es s"
  by (induction es arbitrary: s) (simp_all add: TJ_element_number)

lemma step_TJ_array:
  "step rec h pdf_fonts (Op [ArrayObject es] (Str ''TJ'')) s = Inr (fold (TJ_element h) es s)"
  by (cases s) (simp add: step_def step_str_def state_op_def)

text \<open>
  C6 (as amended). In a state whose font resolves (\<^verbatim>\<open>SetFont\<close> returns a font \<open>F\<close>),
  whose word spacing is not positive and whose text matrix has its six entries, and
  with a host that can measure every string of the array, a \<^verbatim>\<open>TJ\<close> array adds to the
  draw list exactly one DrawText for each element that is not a number, in order and
  with that element as its text; the x of the text matrix moves on by the sum, over
  these elements, of measured width plus word spacing; and the array without its
  numbers gives the very same result, so the numbers are ignored.
\<close>

theorem TJ_one_DrawText_per_string:
  assumes sf: "SetFont (font (gstate \<sigma>)) (fontSize (gstate \<sigma>)) \<sigma> = (Inr F, \<sigma>a)"
    and ws: "wordSpacing (gstate \<sigma>) \<le> 0"
    and tm: "6 \<le> length (mat_at (heap \<sigma>) (textMatrix (gstate \<sigma>)))"
    and ok: "\<forall>e\<in>set es. \<not> is_number e \<longrightarrow>
               \<not> isl (text_extent h (knownfont \<sigma>a) (gstate \<sigma>) e (Scale (font_scale_metrics h) F))"
  shows "\<exists>l' \<sigma>' new.
      step rec h pdf_fonts (Op [ArrayObject es] (Str ''TJ'')) (l, \<sigma>) = Inr (l', \<sigma>')
    \<and> drawlist l' = drawlist l @ new
    \<and> List.map_filter shown_text new = filter (\<lambda>e. \<not> is_number e) es
    \<and> mat_at (heap \<sigma>') (textMatrix (gstate \<sigma>)) ! 4
        = mat_at (heap \<sigma>) (textMatrix (gstate \<sigma>)) ! 4
          + sum_list (map (advance h (knownfont \<sigma>a) (gstate \<sigma>) (Scale (font_scale_metrics h) F))
                        (filter (\<lambda>e. \<not> is_number e) es))
    \<and> step rec h pdf_fonts (Op [ArrayObject (filter (\<lambda>e. \<not> is_number e) es)] (Str ''TJ'')) (l, \<sigma>)
        = Inr (l', \<sigma>')"
proof -
  from fold_TJ_element_plain [OF ws sf refl refl tm ok, of l]
  obtain l' \<sigma>' new where "fold (TJ_element h) es (l, \<sigma>) = (l', \<sigma>')"
    and "drawlist l' = drawlist l @ new"
    and "List.map_filter shown_text new = filter (\<lambda>e. \<not> is_number e) es"
    and "mat_at (heap \<sigma>') (textMatrix (gstate \<sigma>)) ! 4
        = mat_at (heap \<sigma>) (textMatrix (gstate \<sigma>)) ! 4
          + sum_list (map (advance h (knownfont \<sigma>a) (gstate \<sigma>) (Scale (font_scale_metrics h) F))
                        (filter (\<lambda>e. \<not> is_number e) es))"
    by blast
  then show ?thesis by (simp add: step_TJ_array fold_TJ_element_filter)
qed


theorem TJ_one_DrawText_per_string_witness:
  "\<exists>l' \<sigma>' new.
      step (ProcessOperators 0 demo_host) demo_host []
        (Op [ArrayObject [ByteStringObject [72, 101, 108, 108, 111], NumberObject (- 120),
                          ByteStringObject [87, 111, 114, 108, 100]]] (Str ''TJ''))
        (locals_init,
         demo_interp\<lparr>gstate := (gstate demo_interp)\<lparr>font := Some ''Helvetica'',
                                                       fontSize := Some 12\<rparr>\<rparr>)
        = Inr (l', \<sigma>')
    \<and> drawlist l' = new
    \<and> List.map_filter shown_text new
        = [ByteStringObject [72, 101, 108, 108, 111], ByteStringObject [87, 111, 114, 108, 100]]
    \<and> mat_at (heap \<sigma>') (textMatrix (gstate demo_interp)) ! 4 = 60"
proof -
  let ?\<sigma> = "demo_interp\<lparr>gstate := (gstate demo_interp)\<lparr>font := Some ''Helvetica'',
                                                       fontSize := Some 12\<rparr>\<rparr>"
  let ?F = "\<lparr>pointSize = 12, family = FONTFAMILY_SWISS, style = FONTSTYLE_NORMAL,
            weight = FONTWEIGHT_NORMAL, faceName = ''Arial'', scaled = 1\<rparr>"
  let ?es = "[ByteStringObject [72, 101, 108, 108, 111], NumberObject (- 120),
              ByteStringObject [87, 111, 114, 108, 100]]"
  have sf: "SetFont (font (gstate ?\<sigma>)) (fontSize (gstate ?\<sigma>)) ?\<sigma> = (Inr ?F, ?\<sigma>\<lparr>knownfont := True\<rparr>)"
    by code_simp
  have ws: "wordSpacing (gstate ?\<sigma>) \<le> 0" by code_simp
  have tm: "6 \<le> length (mat_at (heap ?\<sigma>) (textMatrix (gstate ?\<sigma>)))" by code_simp
  have ok: "\<forall>e\<in>set ?es. \<not> is_number e \<longrightarrow>
               \<not> isl (text_extent demo_host (knownfont (?\<sigma>\<lparr>knownfont := True\<rparr>)) (gstate ?\<sigma>) e
                        (Scale (font_scale_metrics demo_host) ?F))"
    by code_simp
  have x0: "mat_at (heap ?\<sigma>) (textMatrix (gstate ?\<sigma>)) ! 4 = 0" by code_simp
  have adv: "sum_list (map (advance demo_host (knownfont (?\<sigma>\<lparr>knownfont := True\<rparr>)) (gstate ?\<sigma>)
                              (Scale (font_scale_metrics demo_host) ?F))
                        (filter (\<lambda>e. \<not> is_number e) ?es)) = 60"
    by code_simp
  have flt: "filter (\<lambda>e. \<not> is_number e) ?es
        = [ByteStringObject [72, 101, 108, 108, 111], ByteStringObject [87, 111, 114, 108, 100]]"
    by simp
  have dl0: "drawlist locals_init = []" by (simp add: locals_init_def)
  from TJ_one_DrawText_per_string [OF sf ws tm ok, of "ProcessOperators 0 demo_host" "[]" locals_init]
  obtain l' \<sigma>' new where
    r: "step (ProcessOperators 0 demo_host) demo_host [] (Op [ArrayObject ?es] (Str ''TJ''))
          (locals_init, ?\<sigma>) = Inr (l', \<sigma>')"
    and d: "drawlist l' = drawlist locals_init @ new"
    and t: "List.map_filter shown_text new = filter (\<lambda>e. \<not> is_number e) ?es"
    and x: "mat_at (heap \<sigma>') (textMatrix (gstate ?\<sigma>)) ! 4
        = mat_at (heap ?\<sigma>) (textMatrix (gstate ?\<sigma>)) ! 4
          + sum_list (map (advance demo_host (knownfont (?\<sigma>\<lparr>knownfont := True\<rparr>)) (gstate ?\<sigma>)
                              (Scale (font_scale_metrics demo_host) ?F))
                        (filter (\<lambda>e. \<not> is_number e) ?es))"
    by blast
  have x': "mat_at (heap \<sigma>') (textMatrix (gstate ?\<sigma>)) ! 4 = 60"
    using x unfolding x0 adv by simp
  have "drawlist l' = new" using d dl0 by simp
  moreover have "List.map_filter shown_text new
        = [ByteStringObject [72, 101, 108, 108, 111], ByteStringObject [87, 111, 114, 108, 100]]"
    using t flt by simp
  moreover have "mat_at (heap \<sigma>') (textMatrix (gstate demo_interp)) ! 4 = 60"
    using x' by simp
  ultimately show ?thesis using r by blast
qed

text \<open>With a positive word spacing one string is split at its spaces: the array
  \<^verbatim>\<open>[(a b)]\<close> after \<^verbatim>\<open>1 Tw\<close> gives two DrawText commands.\<close>

theorem TJ_word_spacing_counterexample:
  "map_sum id (\<lambda>r. List.map_filter shown_text (fst r))
     (ProcessOperators 1 demo_host
        [Op [NameObject ''/F1'', NumberObject 12] (Str ''Tf''),
         Op [NumberObject 1] (Str ''Tw''),
         Op [ArrayObject [ByteStringObject [97, 32, 98]]] (Str ''TJ'')]
        [(''/F1'', ''Helvetica'')] demo_interp)
   = Inr [ByteStringObject [97, 32], ByteStringObject [98, 32]]"
  by code_simp

end
